theory Spec2Isabelle
  imports Main
begin

section \<open>JavaScript strings\<close>

text \<open>
  A JavaScript string is a sequence of UTF-16 code units. Here a string is a \<^typ>\<open>string\<close>,
  and a \<^typ>\<open>char\<close> stands for the code unit with the same code, so the embedding covers the
  strings whose code units are below 256. Two literals of the source hold a code unit above
  that range (the apostrophe of the continuity turn and the ellipsis of the payload default);
  they are written with their ASCII look-alikes below.
\<close>

definition is_space :: "char \<Rightarrow> bool" where
  \<comment> \<open>\<open>\s\<close> of a regular expression and the set stripped by \<open>trim()\<close>: TAB, LF, VT, FF, CR,
      SPACE and NBSP are its members below 256.\<close>
  "is_space c = (c \<in> set [CHR 0x09, CHR 0x0A, CHR 0x0B, CHR 0x0C, CHR 0x0D, CHR 0x20, CHR 0xA0])"

definition is_line_terminator :: "char \<Rightarrow> bool" where
  "is_line_terminator c = (c \<in> set [CHR 0x0A, CHR 0x0D])"

definition lower_char :: "char \<Rightarrow> char" where
  \<comment> \<open>\<open>toLowerCase()\<close> on one code unit below 256: A-Z, and the accented capitals
      0xC0-0xDE except the multiplication sign 0xD7.\<close>
  "lower_char c =
     (let n = (of_char c :: nat) in
      if (65 \<le> n \<and> n \<le> 90) \<or> (192 \<le> n \<and> n \<le> 222 \<and> n \<noteq> 215)
      then char_of (n + 32) else c)"

definition toLowerCase :: "string \<Rightarrow> string" where
  "toLowerCase s = map lower_char s"

definition trim :: "string \<Rightarrow> string" where
  "trim s = rev (dropWhile is_space (rev (dropWhile is_space s)))"

fun join :: "string \<Rightarrow> string list \<Rightarrow> string" where
  "join sep [] = []"
| "join sep [x] = x"
| "join sep (x # y # ys) = x @ sep @ join sep (y # ys)"

section \<open>Regular expressions\<close>

text \<open>
  The regular expressions of the source are kept as data and run by a backtracking matcher
  with the priorities of the language: a greedy quantifier tries the longer match first, a
  lazy one the shorter, and an iteration of \<open>*\<close> that consumes nothing is given up.
  A matcher state is the text before the position (reversed), the text from the position on
  and the captures so far.
\<close>

datatype citem = CChar char | CRange char char | CSpace | CNotSpace

datatype regex =
    REmpty
  | RChar char
  | RSet "citem list"
  | RNotSet "citem list"
  | RDot
  | RSeq regex regex
  | ROpt regex
  | RStar regex
  | RLazyStar regex
  | RGroup nat regex
  | REnd bool
  | RLookbehind "citem list"

type_synonym mstate = "string \<times> string \<times> (nat \<times> string) list"

fun in_item :: "char \<Rightarrow> citem \<Rightarrow> bool" where
  "in_item c (CChar d) = (c = d)"
| "in_item c (CRange lo hi) = ((of_char lo :: nat) \<le> of_char c \<and> (of_char c :: nat) \<le> of_char hi)"
| "in_item c CSpace = is_space c"
| "in_item c CNotSpace = (\<not> is_space c)"

definition in_class :: "citem list \<Rightarrow> char \<Rightarrow> bool" where
  "in_class items c = list_ex (in_item c) items"

definition one_char :: "(char \<Rightarrow> bool) \<Rightarrow> mstate \<Rightarrow> (mstate \<Rightarrow> 'a option) \<Rightarrow> 'a option" where
  "one_char p st k =
     (case st of (bef, rest, caps) \<Rightarrow>
        (case rest of [] \<Rightarrow> None
         | c # cs \<Rightarrow> if p c then k (c # bef, cs, caps) else None))"

definition at_end :: "bool \<Rightarrow> mstate \<Rightarrow> bool" where
  \<comment> \<open>\<open>$\<close>: the end of the input, and with the flag \<open>m\<close> also the place before a line
      terminator.\<close>
  "at_end multiline st =
     (case st of (bef, rest, caps) \<Rightarrow>
        (case rest of [] \<Rightarrow> True | c # cs \<Rightarrow> multiline \<and> is_line_terminator c))"

definition behind :: "citem list \<Rightarrow> mstate \<Rightarrow> bool" where
  "behind items st =
     (case st of (bef, rest, caps) \<Rightarrow>
        (case bef of [] \<Rightarrow> False | c # cs \<Rightarrow> in_class items c))"

definition remaining :: "mstate \<Rightarrow> nat" where
  "remaining st = (case st of (bef, rest, caps) \<Rightarrow> length rest)"

primrec star_greedy ::
  "nat \<Rightarrow> (mstate \<Rightarrow> (mstate \<Rightarrow> 'a option) \<Rightarrow> 'a option) \<Rightarrow> mstate \<Rightarrow> (mstate \<Rightarrow> 'a option) \<Rightarrow> 'a option"
where
  "star_greedy 0 m st k = k st"
| "star_greedy (Suc n) m st k =
     (case m st (\<lambda>st'. if remaining st' < remaining st then star_greedy n m st' k else None) of
        Some r \<Rightarrow> Some r
      | None \<Rightarrow> k st)"

primrec star_lazy ::
  "nat \<Rightarrow> (mstate \<Rightarrow> (mstate \<Rightarrow> 'a option) \<Rightarrow> 'a option) \<Rightarrow> mstate \<Rightarrow> (mstate \<Rightarrow> 'a option) \<Rightarrow> 'a option"
where
  "star_lazy 0 m st k = k st"
| "star_lazy (Suc n) m st k =
     (case k st of
        Some r \<Rightarrow> Some r
      | None \<Rightarrow> m st (\<lambda>st'. if remaining st' < remaining st then star_lazy n m st' k else None))"

definition capture :: "nat \<Rightarrow> mstate \<Rightarrow> mstate \<Rightarrow> mstate" where
  "capture i st st' =
     (case st of (bef, rest, caps) \<Rightarrow>
        (case st' of (bef', rest', caps') \<Rightarrow>
           (bef', rest', (i, take (length rest - length rest') rest) # caps')))"

primrec rmatch :: "regex \<Rightarrow> mstate \<Rightarrow> (mstate \<Rightarrow> 'a option) \<Rightarrow> 'a option" where
  "rmatch REmpty = (\<lambda>st k. k st)"
| "rmatch (RChar c) = (\<lambda>st k. one_char (\<lambda>d. d = c) st k)"
| "rmatch (RSet items) = (\<lambda>st k. one_char (in_class items) st k)"
| "rmatch (RNotSet items) = (\<lambda>st k. one_char (\<lambda>d. \<not> in_class items d) st k)"
| "rmatch RDot = (\<lambda>st k. one_char (\<lambda>d. \<not> is_line_terminator d) st k)"
| "rmatch (RSeq a b) = (\<lambda>st k. rmatch a st (\<lambda>st'. rmatch b st' k))"
| "rmatch (ROpt a) = (\<lambda>st k. case rmatch a st k of Some r \<Rightarrow> Some r | None \<Rightarrow> k st)"
| "rmatch (RStar a) = (\<lambda>st k. star_greedy (remaining st) (rmatch a) st k)"
| "rmatch (RLazyStar a) = (\<lambda>st k. star_lazy (remaining st) (rmatch a) st k)"
| "rmatch (RGroup i a) = (\<lambda>st k. rmatch a st (\<lambda>st'. k (capture i st st')))"
| "rmatch (REnd multiline) = (\<lambda>st k. if at_end multiline st then k st else None)"
| "rmatch (RLookbehind items) = (\<lambda>st k. if behind items st then k st else None)"

definition RPlus :: "regex \<Rightarrow> regex" where
  "RPlus a = RSeq a (RStar a)"

primrec RStr :: "string \<Rightarrow> regex" where
  "RStr [] = REmpty"
| "RStr (c # cs) = RSeq (RChar c) (RStr cs)"

definition match_at :: "regex \<Rightarrow> string \<Rightarrow> string \<Rightarrow> (nat \<times> (nat \<times> string) list) option" where
  \<comment> \<open>One attempt at a fixed position: the length of the match and its captures.\<close>
  "match_at r bef rest =
     (case rmatch r (bef, rest, []) Some of
        None \<Rightarrow> None
      | Some (bef', rest', caps) \<Rightarrow> Some (length rest - length rest', caps))"

subsection \<open>\<open>replace\<close>, \<open>split\<close> and \<open>match\<close>\<close>

datatype titem = TLit string | TGroup nat

definition expand :: "titem list \<Rightarrow> (nat \<times> string) list \<Rightarrow> string" where
  \<comment> \<open>The replacement text: \<open>$n\<close> is the capture \<open>n\<close>, empty when the group took no part.\<close>
  "expand t caps =
     concat (map (\<lambda>i. case i of TLit s \<Rightarrow> s
                          | TGroup n \<Rightarrow> (case map_of caps n of Some s \<Rightarrow> s | None \<Rightarrow> [])) t)"

primrec replace_from :: "nat \<Rightarrow> regex \<Rightarrow> titem list \<Rightarrow> string \<Rightarrow> string \<Rightarrow> string" where
  "replace_from 0 r t bef s = s"
| "replace_from (Suc n) r t bef s =
     (case match_at r bef s of
        Some (len, caps) \<Rightarrow>
          if 0 < len
          then expand t caps @ replace_from n r t (rev (take len s) @ bef) (drop len s)
          else expand t caps @ (case s of [] \<Rightarrow> [] | c # cs \<Rightarrow> c # replace_from n r t (c # bef) cs)
      | None \<Rightarrow> (case s of [] \<Rightarrow> [] | c # cs \<Rightarrow> c # replace_from n r t (c # bef) cs))"

definition replace_all :: "regex \<Rightarrow> titem list \<Rightarrow> string \<Rightarrow> string" where
  \<comment> \<open>\<open>s.replace(/r/g, t)\<close>. Every step but the last consumes a character, so the bound
      \<open>length s + 1\<close> on the number of steps is never reached.\<close>
  "replace_all r t s = replace_from (Suc (length s)) r t [] s"

primrec split_from :: "nat \<Rightarrow> regex \<Rightarrow> string \<Rightarrow> string \<Rightarrow> string \<Rightarrow> string list" where
  "split_from 0 r bef cur s = [rev cur @ s]"
| "split_from (Suc n) r bef cur s =
     (case s of
        [] \<Rightarrow> [rev cur]
      | c # cs \<Rightarrow>
          (case match_at r bef s of
             Some (len, caps) \<Rightarrow>
               if len = 0 \<and> cur = [] then split_from n r (c # bef) (c # cur) cs
               else rev cur # split_from n r (rev (take len s) @ bef) [] (drop len s)
           | None \<Rightarrow> split_from n r (c # bef) (c # cur) cs))"

definition split :: "regex \<Rightarrow> string \<Rightarrow> string list" where
  \<comment> \<open>\<open>s.split(/r/)\<close> for a separator without capturing groups.\<close>
  "split r s =
     (if s = [] then (case match_at r [] [] of Some m \<Rightarrow> [] | None \<Rightarrow> [[]])
      else split_from (Suc (2 * length s)) r [] [] s)"

primrec search_from :: "regex \<Rightarrow> string \<Rightarrow> string \<Rightarrow> (string \<times> (nat \<times> string) list) option" where
  "search_from r bef [] =
     (case match_at r bef [] of Some (len, caps) \<Rightarrow> Some ([], caps) | None \<Rightarrow> None)"
| "search_from r bef (c # cs) =
     (case match_at r bef (c # cs) of
        Some (len, caps) \<Rightarrow> Some (take len (c # cs), caps)
      | None \<Rightarrow> search_from r (c # bef) cs)"

definition search :: "regex \<Rightarrow> string \<Rightarrow> (string \<times> (nat \<times> string) list) option" where
  \<comment> \<open>\<open>s.match(/r/)\<close>: the leftmost match, its text and its captures.\<close>
  "search r s = search_from r [] s"

definition captured :: "nat \<Rightarrow> (nat \<times> string) list \<Rightarrow> string" where
  "captured n caps = (case map_of caps n of Some s \<Rightarrow> s | None \<Rightarrow> [])"

section \<open>JSON values\<close>

text \<open>
  The values \<open>JSON.parse\<close> yields, and \<open>NaN\<close>, which \<open>Number()\<close> can return. Numbers
  are the integers: floating point is outside the embedding. A key or an optional field that
  is absent (\<open>undefined\<close>) is \<open>None\<close>.
\<close>

datatype json =
    JNull
  | JBool bool
  | JNum int
  | JNaN
  | JStr string
  | JArr "json list"
  | JObj "(string \<times> json) list"

type_synonym jobject = "(string \<times> json) list"

definition truthy :: "json \<Rightarrow> bool" where
  "truthy v =
     (case v of
        JNull \<Rightarrow> False
      | JBool b \<Rightarrow> b
      | JNum n \<Rightarrow> n \<noteq> 0
      | JNaN \<Rightarrow> False
      | JStr t \<Rightarrow> t \<noteq> []
      | JArr xs \<Rightarrow> True
      | JObj kvs \<Rightarrow> True)"

definition or_else :: "json option \<Rightarrow> json \<Rightarrow> json" where
  \<comment> \<open>\<open>a || b\<close>\<close>
  "or_else a b = (case a of None \<Rightarrow> b | Some v \<Rightarrow> if truthy v then v else b)"

definition nth_opt :: "'a list \<Rightarrow> nat \<Rightarrow> 'a option" where
  \<comment> \<open>\<open>xs[i]\<close>, \<open>undefined\<close> out of range\<close>
  "nth_opt xs i = (if i < length xs then Some (xs ! i) else None)"

datatype error = Error string | TypeError | SyntaxError

subsection \<open>An executable model of \<open>JSON.parse\<close>\<close>

text \<open>
  \<open>JSON.parse\<close> is a built-in of the platform. The functions of the repository take it as
  the parameter \<open>parse\<close> (\<open>None\<close> when it throws a SyntaxError), so what is proved for every
  \<open>parse\<close> holds for the built-in. \<open>JSON_parse\<close> is a model of it on the JSON texts whose
  numbers are integer literals and whose escapes stay below code 256; it is only used to
  run the functions on concrete texts.
\<close>

definition is_json_ws :: "char \<Rightarrow> bool" where
  "is_json_ws c = (c \<in> set [CHR 0x09, CHR 0x0A, CHR 0x0D, CHR 0x20])"

definition skip_ws :: "string \<Rightarrow> string" where
  "skip_ws s = dropWhile is_json_ws s"

definition is_digit :: "char \<Rightarrow> bool" where
  "is_digit c = (c \<in> set ''0123456789'')"

definition digit_val :: "char \<Rightarrow> nat" where
  "digit_val c = of_char c - 48"

definition hex_val :: "char \<Rightarrow> nat option" where
  "hex_val c =
     (let n = (of_char c :: nat) in
      if 48 \<le> n \<and> n \<le> 57 then Some (n - 48)
      else if 65 \<le> n \<and> n \<le> 70 then Some (n - 55)
      else if 97 \<le> n \<and> n \<le> 102 then Some (n - 87)
      else None)"

definition unescape :: "char \<Rightarrow> char option" where
  "unescape e =
     (if e = CHR 0x22 then Some (CHR 0x22)
      else if e = CHR 0x5C then Some (CHR 0x5C)
      else if e = CHR ''/'' then Some (CHR ''/'')
      else if e = CHR ''b'' then Some (CHR 0x08)
      else if e = CHR ''f'' then Some (CHR 0x0C)
      else if e = CHR ''n'' then Some (CHR 0x0A)
      else if e = CHR ''r'' then Some (CHR 0x0D)
      else if e = CHR ''t'' then Some (CHR 0x09)
      else None)"

definition hex4 :: "char \<Rightarrow> char \<Rightarrow> char \<Rightarrow> char \<Rightarrow> char option" where
  "hex4 a b c d =
     (case (hex_val a, hex_val b, hex_val c, hex_val d) of
        (Some w, Some x, Some y, Some z) \<Rightarrow>
          (let n = ((w * 16 + x) * 16 + y) * 16 + z in if n < 256 then Some (char_of n) else None)
      | _ \<Rightarrow> None)"

fun parse_str :: "string \<Rightarrow> (string \<times> string) option" where
  "parse_str [] = None"
| "parse_str (c # cs) =
     (if c = CHR 0x22 then Some ([], cs)
      else if c = CHR 0x5C then
        (case cs of
           [] \<Rightarrow> None
         | e # es \<Rightarrow>
             if e = CHR ''u'' then
               (case es of
                  h1 # h2 # h3 # h4 # r \<Rightarrow>
                    (case hex4 h1 h2 h3 h4 of
                       None \<Rightarrow> None
                     | Some ch \<Rightarrow>
                         (case parse_str r of None \<Rightarrow> None | Some (t, r') \<Rightarrow> Some (ch # t, r')))
                | _ \<Rightarrow> None)
             else
               (case unescape e of
                  None \<Rightarrow> None
                | Some ch \<Rightarrow>
                    (case parse_str es of None \<Rightarrow> None | Some (t, r') \<Rightarrow> Some (ch # t, r'))))
      else if (of_char c :: nat) < 32 then None
      else (case parse_str cs of None \<Rightarrow> None | Some (t, r') \<Rightarrow> Some (c # t, r')))"

definition digits_val :: "string \<Rightarrow> nat" where
  "digits_val ds = foldl (\<lambda>acc d. acc * 10 + digit_val d) 0 ds"

definition parse_nat :: "string \<Rightarrow> (nat \<times> string) option" where
  \<comment> \<open>\<open>0\<close>, or a digit from 1 to 9 followed by digits: no leading zero.\<close>
  "parse_nat s =
     (let ds = takeWhile is_digit s; r = dropWhile is_digit s in
      if ds = [] then None
      else if hd ds = CHR ''0'' \<and> length ds > 1 then None
      else Some (digits_val ds, r))"

definition parse_number :: "string \<Rightarrow> (json \<times> string) option" where
  "parse_number s =
     (case s of
        [] \<Rightarrow> None
      | c # cs \<Rightarrow>
          if c = CHR ''-'' then
            (case parse_nat cs of None \<Rightarrow> None | Some (n, r) \<Rightarrow> Some (JNum (- int n), r))
          else (case parse_nat s of None \<Rightarrow> None | Some (n, r) \<Rightarrow> Some (JNum (int n), r)))"

definition obj_add :: "string \<Rightarrow> json \<Rightarrow> (string \<times> json) list \<Rightarrow> (string \<times> json) list" where
  \<comment> \<open>A repeated key keeps its first place and its last value.\<close>
  "obj_add k v kvs =
     (case map_of kvs k of
        None \<Rightarrow> (k, v) # kvs
      | Some v' \<Rightarrow> (k, v') # filter (\<lambda>p. fst p \<noteq> k) kvs)"

definition starts_with :: "string \<Rightarrow> string \<Rightarrow> bool" where
  "starts_with p s = (take (length p) s = p)"

fun parse_value :: "nat \<Rightarrow> string \<Rightarrow> (json \<times> string) option"
  and parse_elements :: "nat \<Rightarrow> string \<Rightarrow> (json list \<times> string) option"
  and parse_members :: "nat \<Rightarrow> string \<Rightarrow> ((string \<times> json) list \<times> string) option"
where
  "parse_value 0 s = None"
| "parse_value (Suc n) s =
     (case skip_ws s of
        [] \<Rightarrow> None
      | c # cs \<Rightarrow>
          if c = CHR ''{'' then
            (case skip_ws cs of
               [] \<Rightarrow> None
             | d # ds \<Rightarrow>
                 if d = CHR ''}'' then Some (JObj [], ds)
                 else (case parse_members n (d # ds) of
                         None \<Rightarrow> None
                       | Some (kvs, r) \<Rightarrow> Some (JObj kvs, r)))
          else if c = CHR ''['' then
            (case skip_ws cs of
               [] \<Rightarrow> None
             | d # ds \<Rightarrow>
                 if d = CHR '']'' then Some (JArr [], ds)
                 else (case parse_elements n (d # ds) of
                         None \<Rightarrow> None
                       | Some (vs, r) \<Rightarrow> Some (JArr vs, r)))
          else if c = CHR 0x22 then
            (case parse_str cs of None \<Rightarrow> None | Some (t, r) \<Rightarrow> Some (JStr t, r))
          else if starts_with ''true'' (c # cs) then Some (JBool True, drop 4 (c # cs))
          else if starts_with ''false'' (c # cs) then Some (JBool False, drop 5 (c # cs))
          else if starts_with ''null'' (c # cs) then Some (JNull, drop 4 (c # cs))
          else parse_number (c # cs))"
| "parse_elements 0 s = None"
| "parse_elements (Suc n) s =
     (case parse_value n s of
        None \<Rightarrow> None
      | Some (v, r) \<Rightarrow>
          (case skip_ws r of
             [] \<Rightarrow> None
           | c # cs \<Rightarrow>
               if c = CHR '','' then
                 (case parse_elements n cs of
                    None \<Rightarrow> None
                  | Some (vs, r') \<Rightarrow> Some (v # vs, r'))
               else if c = CHR '']'' then Some ([v], cs)
               else None))"
| "parse_members 0 s = None"
| "parse_members (Suc n) s =
     (case skip_ws s of
        [] \<Rightarrow> None
      | q # qs \<Rightarrow>
          if q \<noteq> CHR 0x22 then None
          else
            (case parse_str qs of
               None \<Rightarrow> None
             | Some (k, r) \<Rightarrow>
                 (case skip_ws r of
                    [] \<Rightarrow> None
                  | c # cs \<Rightarrow>
                      if c \<noteq> CHR '':'' then None
                      else
                        (case parse_value n cs of
                           None \<Rightarrow> None
                         | Some (v, r') \<Rightarrow>
                             (case skip_ws r' of
                                [] \<Rightarrow> None
                              | d # ds \<Rightarrow>
                                  if d = CHR '','' then
                                    (case parse_members n ds of
                                       None \<Rightarrow> None
                                     | Some (kvs, r'') \<Rightarrow> Some (obj_add k v kvs, r''))
                                  else if d = CHR ''}'' then Some ([(k, v)], ds)
                                  else None)))))"

definition JSON_parse :: "string \<Rightarrow> json option" where
  \<comment> \<open>The depth of the recursion is bounded by the length of the text plus one.\<close>
  "JSON_parse s =
     (case parse_value (Suc (length s)) s of
        None \<Rightarrow> None
      | Some (v, r) \<Rightarrow> if skip_ws r = [] then Some v else None)"

section \<open>Conversions and property reads\<close>

text \<open>
  \<open>String(v)\<close>, a template literal and a property key convert a value to a string;
  \<open>Number(v)\<close> and a comparison with a number convert it to a number. The conversion of an
  object calls its method \<open>toString\<close>. An object with a property of its own of that name has
  no such method, since no JSON value is a function, and its conversion throws a TypeError;
  so does the conversion of an array with such an object among its elements.
\<close>

fun show_nat :: "nat \<Rightarrow> string" where
  "show_nat n =
     (if n < 10 then [char_of (48 + n)] else show_nat (n div 10) @ [char_of (48 + n mod 10)])"

declare show_nat.simps [simp del]

definition show_int :: "int \<Rightarrow> string" where
  "show_int i = (if i < 0 then CHR ''-'' # show_nat (nat (- i)) else show_nat (nat i))"

fun to_String :: "json \<Rightarrow> string" where
  \<comment> \<open>The text of \<open>String(v)\<close> when the conversion does not throw.\<close>
  "to_String JNull = ''null''"
| "to_String (JBool b) = (if b then ''true'' else ''false'')"
| "to_String (JNum n) = show_int n"
| "to_String JNaN = ''NaN''"
| "to_String (JStr t) = t"
| "to_String (JArr xs) = join '','' (map (\<lambda>x. if x = JNull then [] else to_String x) xs)"
| "to_String (JObj kvs) = ''[object Object]''"

fun coercible :: "json \<Rightarrow> bool" where
  \<comment> \<open>Whether the conversion of the value to a string or a number returns.\<close>
  "coercible JNull = True"
| "coercible (JBool b) = True"
| "coercible (JNum n) = True"
| "coercible JNaN = True"
| "coercible (JStr t) = True"
| "coercible (JArr xs) = list_all coercible xs"
| "coercible (JObj kvs) = (map_of kvs ''toString'' = None)"

definition string_to_number :: "string \<Rightarrow> json" where
  \<comment> \<open>\<open>Number(s)\<close> on the blank string and on the decimal integers with an optional sign.
      Every other text is \<open>NaN\<close> here: the texts that denote another number (a fraction, an
      exponent, a hexadecimal) are outside the embedding.\<close>
  "string_to_number s =
     (let t = trim s in
      if t = [] then JNum 0
      else (case t of
              c # cs \<Rightarrow>
                if (c = CHR ''-'' \<or> c = CHR ''+'') \<and> cs \<noteq> [] \<and> list_all is_digit cs
                then JNum ((if c = CHR ''-'' then - 1 else 1) * int (digits_val cs))
                else if list_all is_digit t then JNum (int (digits_val t))
                else JNaN
            | [] \<Rightarrow> JNum 0))"

definition to_number :: "json \<Rightarrow> json" where
  \<comment> \<open>The value of \<open>Number(v)\<close> when the conversion does not throw.\<close>
  "to_number v =
     (case v of
        JNull \<Rightarrow> JNum 0
      | JBool b \<Rightarrow> JNum (if b then 1 else 0)
      | JNum n \<Rightarrow> JNum n
      | JNaN \<Rightarrow> JNaN
      | JStr t \<Rightarrow> string_to_number t
      | JArr xs \<Rightarrow> string_to_number (to_String (JArr xs))
      | JObj kvs \<Rightarrow> JNaN)"

definition string_of :: "json \<Rightarrow> error + string" where
  \<comment> \<open>\<open>String(v)\<close>\<close>
  "string_of v = (if coercible v then Inr (to_String v) else Inl TypeError)"

definition number_of :: "json \<Rightarrow> error + json" where
  \<comment> \<open>\<open>Number(v)\<close>\<close>
  "number_of v = (if coercible v then Inr (to_number v) else Inl TypeError)"

definition text_of :: "json option \<Rightarrow> error + string" where
  \<comment> \<open>A value that may be \<open>undefined\<close>, in a template literal or as the key of \<open>obj[v]\<close>.\<close>
  "text_of v = (case v of None \<Rightarrow> Inr ''undefined'' | Some x \<Rightarrow> string_of x)"

definition field :: "json \<Rightarrow> string \<Rightarrow> json option" where
  \<comment> \<open>\<open>v?.k\<close> for a key that no prototype defines: the property of an object, and
      \<open>undefined\<close> for every other value. \<open>v.k\<close> is the same but for \<open>null\<close>, where it throws;
      the functions below test that before they read.\<close>
  "field v k = (case v of JObj kvs \<Rightarrow> map_of kvs k | _ \<Rightarrow> None)"

definition opt_field :: "json option \<Rightarrow> string \<Rightarrow> json option" where
  \<comment> \<open>\<open>v?.k\<close> for a value that may be \<open>undefined\<close>\<close>
  "opt_field v k = (case v of None \<Rightarrow> None | Some x \<Rightarrow> field x k)"

definition present :: "json option \<Rightarrow> json option" where
  \<comment> \<open>The value when it is truthy: what passes \<open>if (v)\<close> and what \<open>v || null\<close> keeps.\<close>
  "present v = (case v of Some x \<Rightarrow> if truthy x then Some x else None | None \<Rightarrow> None)"

definition lower_text :: "json option \<Rightarrow> error + string" where
  \<comment> \<open>\<open>(v || '').toLowerCase()\<close>: a truthy value that is not a string has no such method.\<close>
  "lower_text v =
     (case present v of
        None \<Rightarrow> Inr []
      | Some x \<Rightarrow> (case x of JStr s \<Rightarrow> Inr (toLowerCase s) | _ \<Rightarrow> Inl TypeError))"

fun collect :: "(error + 'a) list \<Rightarrow> error + 'a list" where
  \<comment> \<open>The results of a \<open>map\<close> whose callback may throw: the first exception ends it.\<close>
  "collect [] = Inr []"
| "collect (x # xs) =
     (case x of
        Inl e \<Rightarrow> Inl e
      | Inr v \<Rightarrow> (case collect xs of Inl e \<Rightarrow> Inl e | Inr vs \<Rightarrow> Inr (v # vs)))"

definition entry :: "string \<Rightarrow> json option \<Rightarrow> (string \<times> json) list" where
  \<comment> \<open>One property of an object literal; a property set to \<open>undefined\<close> reads like one that
      is absent and is left out.\<close>
  "entry k v = (case v of Some x \<Rightarrow> [(k, x)] | None \<Rightarrow> [])"


section \<open>The response normalizer (utils/jsonParser.js)\<close>

definition sp :: regex where
  \<comment> \<open>\<open>\s\<close>\<close>
  "sp = RSet [CSpace]"

definition any_char :: regex where
  \<comment> \<open>\<open>[\s\S]\<close>\<close>
  "any_char = RSet [CSpace, CNotSpace]"

definition FENCE :: string where
  "FENCE = [CHR 0x60, CHR 0x60, CHR 0x60]"

definition re_fence_json :: regex where
  \<comment> \<open>\<open>/```json\s*/g\<close>\<close>
  "re_fence_json = RSeq (RStr (FENCE @ ''json'')) (RStar sp)"

definition re_fence_end :: regex where
  \<comment> \<open>\<open>/```\s*$/g\<close>\<close>
  "re_fence_end = RSeq (RStr FENCE) (RSeq (RStar sp) (REnd False))"

definition re_line_comment :: regex where
  \<comment> \<open>\<open>/\/\/.*$/gm\<close>\<close>
  "re_line_comment = RSeq (RStr ''//'') (RSeq (RStar RDot) (REnd True))"

definition re_block_comment :: regex where
  \<comment> \<open>\<open>/\/\*[\s\S]*?\*\//g\<close>\<close>
  "re_block_comment = RSeq (RStr ''/*'') (RSeq (RLazyStar any_char) (RStr ''*/''))"

definition re_bare_key :: regex where
  \<comment> \<open>\<open>/([,{]\s*)([a-zA-Z_][a-zA-Z0-9_]*)\s*:/g\<close>\<close>
  "re_bare_key =
     RSeq (RGroup 1 (RSeq (RSet [CChar CHR '','', CChar CHR ''{'']) (RStar sp)))
       (RSeq (RGroup 2
                (RSeq (RSet [CRange CHR ''a'' CHR ''z'', CRange CHR ''A'' CHR ''Z'', CChar CHR ''_''])
                      (RStar (RSet [CRange CHR ''a'' CHR ''z'', CRange CHR ''A'' CHR ''Z'',
                                    CRange CHR ''0'' CHR ''9'', CChar CHR ''_'']))))
          (RSeq (RStar sp) (RChar CHR '':'')))"

definition re_single_quoted :: regex where
  \<comment> \<open>\<open>/:\s*'([^']*?)'/g\<close>\<close>
  "re_single_quoted =
     RSeq (RChar CHR '':'')
       (RSeq (RStar sp)
          (RSeq (RChar CHR 0x27)
             (RSeq (RGroup 1 (RLazyStar (RNotSet [CChar CHR 0x27]))) (RChar CHR 0x27))))"

definition re_trailing_comma :: regex where
  \<comment> \<open>\<open>/,(\s*[}\]])/g\<close>\<close>
  "re_trailing_comma =
     RSeq (RChar CHR '','') (RGroup 1 (RSeq (RStar sp) (RSet [CChar CHR ''}'', CChar CHR '']''])))"

definition re_adjacent :: "char \<Rightarrow> char \<Rightarrow> regex" where
  \<comment> \<open>\<open>/"\s*\n\s*"/g\<close>, \<open>/}\s*\n\s*{/g\<close> and \<open>/]\s*\n\s*\[/g\<close>\<close>
  "re_adjacent a b =
     RSeq (RChar a) (RSeq (RStar sp) (RSeq (RChar CHR 0x0A) (RSeq (RStar sp) (RChar b))))"

definition re_comma_before :: "char \<Rightarrow> regex" where
  \<comment> \<open>\<open>/,(\s*})/g\<close> and \<open>/,(\s*])/g\<close>\<close>
  "re_comma_before c = RSeq (RChar CHR '','') (RGroup 1 (RSeq (RStar sp) (RChar c)))"

definition count_char :: "char \<Rightarrow> string \<Rightarrow> nat" where
  \<comment> \<open>\<open>(jsonStr.match(/c/g) || []).length\<close>\<close>
  "count_char c s = length (filter (\<lambda>x. x = c) s)"

definition fixCommonJSONIssues :: "string \<Rightarrow> string" where
  "fixCommonJSONIssues jsonStr =
     (let s1 = replace_all re_fence_end [] (replace_all re_fence_json [] jsonStr);
          s2 = replace_all re_line_comment [] s1;
          s3 = replace_all re_block_comment [] s2;
          s4 = replace_all re_bare_key [TGroup 1, TLit [CHR 0x22], TGroup 2, TLit [CHR 0x22, CHR '':'']] s3;
          s5 = replace_all re_single_quoted [TLit [CHR '':'', CHR '' '', CHR 0x22], TGroup 1, TLit [CHR 0x22]] s4;
          s6 = replace_all re_trailing_comma [TGroup 1] s5;
          s7 = replace_all (re_adjacent (CHR 0x22) (CHR 0x22)) [TLit [CHR 0x22, CHR '','', CHR 0x0A, CHR 0x22]] s6;
          s8 = replace_all (re_adjacent CHR ''}'' CHR ''{'') [TLit [CHR ''}'', CHR '','', CHR 0x0A, CHR ''{'']] s7;
          s9 = replace_all (re_adjacent CHR '']'' CHR ''['') [TLit [CHR '']'', CHR '','', CHR 0x0A, CHR ''['']] s8;
          s10 = replace_all (re_comma_before CHR ''}'') [TGroup 1] s9;
          s11 = replace_all (re_comma_before CHR '']'') [TGroup 1] s10;
          openBraces = count_char CHR ''{'' s11;
          closeBraces = count_char CHR ''}'' s11;
          openBrackets = count_char CHR ''['' s11;
          closeBrackets = count_char CHR '']'' s11;
          s12 = (if openBraces > closeBraces then s11 @ replicate (openBraces - closeBraces) CHR ''}'' else s11);
          s13 = (if openBrackets > closeBrackets then s12 @ replicate (openBrackets - closeBrackets) CHR '']'' else s12)
      in trim s13)"

fun balanced_scan :: "char \<Rightarrow> char \<Rightarrow> int \<Rightarrow> string \<Rightarrow> string \<Rightarrow> string option" where
  "balanced_scan openChar closeChar depth acc [] = None"
| "balanced_scan openChar closeChar depth acc (ch # rest) =
     (let depth' = (if ch = openChar then depth + 1
                    else if ch = closeChar then depth - 1 else depth)
      in if depth' = 0 then Some (rev (ch # acc))
         else balanced_scan openChar closeChar depth' (ch # acc) rest)"

definition extractBalanced :: "string \<Rightarrow> char \<Rightarrow> char \<Rightarrow> string option" where
  "extractBalanced text openChar closeChar =
     (case dropWhile (\<lambda>c. c \<noteq> openChar) text of
        [] \<Rightarrow> None
      | s \<Rightarrow> balanced_scan openChar closeChar 0 [] s)"

definition re_fence_block :: regex where
  \<comment> \<open>\<open>/```(?:json)?\s*\n?([\s\S]*?)\n?```/\<close>\<close>
  "re_fence_block =
     RSeq (RStr FENCE)
       (RSeq (ROpt (RStr ''json''))
          (RSeq (RStar sp)
             (RSeq (ROpt (RChar CHR 0x0A))
                (RSeq (RGroup 1 (RLazyStar any_char))
                   (RSeq (ROpt (RChar CHR 0x0A)) (RStr FENCE))))))"

definition re_greedy :: "char \<Rightarrow> char \<Rightarrow> regex" where
  \<comment> \<open>\<open>/\{[\s\S]*\}/\<close> and \<open>/\[[\s\S]*\]/\<close>\<close>
  "re_greedy a b = RSeq (RChar a) (RSeq (RStar any_char) (RChar b))"

definition extract_or_greedy :: "string \<Rightarrow> char \<Rightarrow> char \<Rightarrow> string option" where
  \<comment> \<open>The balanced extraction and, when it yields nothing, the greedy match.\<close>
  "extract_or_greedy response a b =
     (case extractBalanced response a b of
        Some s \<Rightarrow> Some s
      | None \<Rightarrow> (case search (re_greedy a b) response of
                   Some (m, caps) \<Rightarrow> Some m
                 | None \<Rightarrow> None))"

definition parseAIJSONResponse :: "(string \<Rightarrow> json option) \<Rightarrow> string \<Rightarrow> error + json" where
  "parseAIJSONResponse parse response =
     (case parse response of
        Some v \<Rightarrow> Inr v
      | None \<Rightarrow>
          (case (case search re_fence_block response of
                   Some (m, caps) \<Rightarrow> parse (fixCommonJSONIssues (trim (captured 1 caps)))
                 | None \<Rightarrow> None) of
             Some v \<Rightarrow> Inr v
           | None \<Rightarrow>
               (case (case extract_or_greedy response CHR ''{'' CHR ''}'' of
                        Some objStr \<Rightarrow> parse (fixCommonJSONIssues objStr)
                      | None \<Rightarrow> None) of
                  Some v \<Rightarrow> Inr v
                | None \<Rightarrow>
                    (case (case extract_or_greedy response CHR ''['' CHR '']'' of
                             Some arrStr \<Rightarrow> parse (fixCommonJSONIssues arrStr)
                           | None \<Rightarrow> None) of
                       Some v \<Rightarrow> Inr v
                     | None \<Rightarrow> Inl (Error ''No valid JSON found in AI response'')))))"

section \<open>The turn splitter (lessonSessionEngine.js)\<close>

record Turn =
  say :: "string option"
  question :: "json option"
  meta_type :: string

definition narration_turn :: "string \<Rightarrow> Turn" where
  "narration_turn s = \<lparr>say = Some s, question = None, meta_type = ''narration''\<rparr>"

definition socratic_turn :: "json option \<Rightarrow> Turn" where
  \<comment> \<open>\<open>{ say: null, question: socratic[0], meta: { type: 'socratic' } }\<close>\<close>
  "socratic_turn q = \<lparr>say = None, question = q, meta_type = ''socratic''\<rparr>"

definition CONTINUE_TEXT :: string where
  "CONTINUE_TEXT = ''Let'' @ [CHR 0x27] @ ''s continue.''"

definition paragraph_sep :: regex where
  \<comment> \<open>\<open>/\n\s*\n/\<close>\<close>
  "paragraph_sep = RSeq (RChar CHR 0x0A) (RSeq (RStar (RSet [CSpace])) (RChar CHR 0x0A))"

definition sentence_sep :: regex where
  \<comment> \<open>\<open>/(?<=[.!?])\s+/\<close>\<close>
  "sentence_sep =
     RSeq (RLookbehind [CChar CHR ''.'', CChar CHR ''!'', CChar CHR ''?'']) (RPlus (RSet [CSpace]))"

definition paragraphs :: "string \<Rightarrow> string list" where
  \<comment> \<open>\<open>content.split(/\n\s*\n/).map(p => p.trim()).filter(Boolean)\<close>\<close>
  "paragraphs content = filter (\<lambda>p. p \<noteq> []) (map trim (split paragraph_sep content))"

definition sentences :: "string \<Rightarrow> string list" where
  \<comment> \<open>\<open>p.split(/(?<=[.!?])\s+/).filter(Boolean)\<close>\<close>
  "sentences p = filter (\<lambda>x. x \<noteq> []) (split sentence_sep p)"

definition paragraph_turn :: "string \<Rightarrow> Turn" where
  "paragraph_turn p = narration_turn (join '' '' (take 2 (sentences p)))"

definition splitContentIntoTurns :: "json option \<Rightarrow> Turn list" where
  "splitContentIntoTurns content =
     (case content of
        Some (JStr s) \<Rightarrow>
          if s = [] then [narration_turn CONTINUE_TEXT]
          else (let turns = map paragraph_turn (paragraphs s)
                in if turns = [] then [narration_turn (take 200 s)] else turns)
      | _ \<Rightarrow> [narration_turn CONTINUE_TEXT])"

definition socratic_of :: "json option \<Rightarrow> json" where
  \<comment> \<open>\<open>block.tutoring_elements?.socratic_questions || []\<close>\<close>
  "socratic_of tutoring_elements =
     (case present (opt_field tutoring_elements ''socratic_questions'') of
        Some v \<Rightarrow> v
      | None \<Rightarrow> JArr [])"

definition length_of :: "json \<Rightarrow> json option" where
  \<comment> \<open>\<open>v.length\<close>: the length of an array or of a string, the property of an object.\<close>
  "length_of v =
     (case v of
        JArr xs \<Rightarrow> Some (JNum (int (length xs)))
      | JStr s \<Rightarrow> Some (JNum (int (length s)))
      | JObj kvs \<Rightarrow> map_of kvs ''length''
      | _ \<Rightarrow> None)"

definition first_of :: "json \<Rightarrow> json option" where
  \<comment> \<open>\<open>v[0]\<close>: the first element of an array, the first character of a string, the
      property \<open>0\<close> of an object.\<close>
  "first_of v =
     (case v of
        JArr xs \<Rightarrow> nth_opt xs 0
      | JStr s \<Rightarrow> (case s of [] \<Rightarrow> None | c # cs \<Rightarrow> Some (JStr [c]))
      | JObj kvs \<Rightarrow> map_of kvs ''0''
      | _ \<Rightarrow> None)"

definition positive :: "json option \<Rightarrow> error + bool" where
  \<comment> \<open>\<open>v > 0\<close>\<close>
  "positive v =
     (case v of
        None \<Rightarrow> Inr False
      | Some x \<Rightarrow>
          (case number_of x of
             Inl e \<Rightarrow> Inl e
           | Inr n \<Rightarrow> (case n of JNum i \<Rightarrow> Inr (0 < i) | _ \<Rightarrow> Inr False)))"

definition block_turns :: "json option \<Rightarrow> json option \<Rightarrow> error + Turn list" where
  \<comment> \<open>The turns that \<open>_ensureTurnsForBlock\<close> derives from the content and the tutoring
      elements of a block: \<open>splice(1, 0, ...)\<close> puts the first Socratic question at index 1,
      \<open>slice(0, 6)\<close> keeps six turns.\<close>
  "block_turns content tutoring_elements =
     (let baseTurns = splitContentIntoTurns content;
          socratic = socratic_of tutoring_elements
      in case positive (length_of socratic) of
           Inl e \<Rightarrow> Inl e
         | Inr some \<Rightarrow>
             Inr (take 6 (if some
                          then take 1 baseTurns @ [socratic_turn (first_of socratic)] @ drop 1 baseTurns
                          else baseTurns)))"

section \<open>The plan generator (lessonPlanner.js)\<close>

datatype svc_result = Throws string | Returns string

text \<open>
  \<open>svc_result\<close> is the outcome of one call of \<open>aiProviderManager.generateResponse\<close>: the
  call is rejected with an \<open>Error\<close>, or it yields a text. The prompt only reaches the
  service and is not modelled; the functions below are stated for every outcome.
\<close>

definition normalize_step :: "nat \<Rightarrow> json \<Rightarrow> error + json" where
  \<comment> \<open>The callback of \<open>parsed.map\<close>. Reading a field of \<open>null\<close> throws a TypeError, and so
      do \<open>String(...)\<close> and \<open>Number(...)\<close> on a value that cannot be converted.\<close>
  "normalize_step idx step =
     (if step = JNull then Inl TypeError
      else
        (case string_of (or_else (field step ''type'') (JStr ''narration'')) of
           Inl e \<Rightarrow> Inl e
         | Inr type \<Rightarrow>
             (case number_of (or_else (field step ''estimated_minutes'') (JNum 2)) of
                Inl e \<Rightarrow> Inl e
              | Inr minutes \<Rightarrow>
                  Inr (JObj
                    ([(''id'', or_else (field step ''id'') (JStr (''step_'' @ show_nat (idx + 1)))),
                      (''type'', JStr (toLowerCase type)),
                      (''title'', or_else (field step ''title'') (JStr (''Step '' @ show_nat (idx + 1)))),
                      (''objective'', or_else (field step ''objective'') (JStr ''Learn a key concept'')),
                      (''estimated_minutes'', minutes)]
                     @ (case field step ''options'' of
                          Some (JArr os) \<Rightarrow> [(''options'', JArr os)]
                        | _ \<Rightarrow> []))))))"

definition normalize_steps :: "json list \<Rightarrow> error + json list" where
  "normalize_steps parsed =
     collect (map (\<lambda>(idx, step). normalize_step idx step) (zip [0..<length parsed] parsed))"

definition fallback_step :: "nat \<Rightarrow> json" where
  "fallback_step i =
     (let idx = i + 1; isChoice = (idx mod 4 = 0) in
      JObj
        ([(''id'', JStr (if isChoice then ''choice_'' @ show_nat idx else ''step_'' @ show_nat idx)),
          (''type'', JStr (if isChoice then ''choice''
                          else if idx mod 3 = 0 then ''quiz'' else ''narration'')),
          (''title'', JStr (if isChoice then ''Choose your path '' @ show_nat idx
                           else ''Learning Step '' @ show_nat idx)),
          (''objective'', JStr (if isChoice then ''Select an exploration path''
                               else ''Understand concept '' @ show_nat idx)),
          (''estimated_minutes'', JNum (if isChoice then 2 else 3))]
         @ (if isChoice
            then [(''options'',
                   JArr [JObj [(''text'', JStr ''Path A''), (''next'', JStr (''step_'' @ show_nat (idx + 1)))],
                         JObj [(''text'', JStr ''Path B''), (''next'', JStr (''step_'' @ show_nat (idx + 1)))]])]
            else [])))"

definition fallback_plan :: "json list" where
  \<comment> \<open>\<open>Array.from({ length: 8 }, (_, i) => ...)\<close>\<close>
  "fallback_plan = map fallback_step [0..<8]"

definition plan_attempt :: "(string \<Rightarrow> json option) \<Rightarrow> string \<Rightarrow> error + json list" where
  \<comment> \<open>The inner \<open>try\<close> of \<open>createPlan\<close> and its \<open>catch\<close>.\<close>
  "plan_attempt parse raw =
     (case (case parseAIJSONResponse parse raw of
              Inl e \<Rightarrow> Inl e
            | Inr parsed \<Rightarrow>
                (case parsed of
                   JArr steps \<Rightarrow> normalize_steps steps
                 | _ \<Rightarrow> Inl (Error ''Planner must return a JSON array''))) of
        Inr steps \<Rightarrow> Inr steps
      | Inl e \<Rightarrow>
          (case parse (fixCommonJSONIssues raw) of
             None \<Rightarrow> Inl SyntaxError
           | Some parsed \<Rightarrow> (case parsed of JArr xs \<Rightarrow> Inr xs | _ \<Rightarrow> Inl e)))"

definition createPlan :: "(string \<Rightarrow> json option) \<Rightarrow> svc_result \<Rightarrow> error + json list" where
  "createPlan parse service =
     (case (case service of
              Throws msg \<Rightarrow> Inl (Error msg)
            | Returns raw \<Rightarrow> plan_attempt parse raw) of
        Inr steps \<Rightarrow> Inr steps
      | Inl e \<Rightarrow> Inr fallback_plan)"

section \<open>The step content generator (dynamicLessonGenerator.js)\<close>

text \<open>
  A plan step and a block are JSON values: the steps are what \<open>createPlan\<close> returned and a
  block is what \<open>generateContentForStep\<close> returned, which for a narration, a quiz or a
  reflection is whatever value the text of the service denotes. A step that is absent
  (\<open>undefined\<close>) is \<open>None\<close>.
\<close>

record GenContext =
  ctx_topic :: string
  ctx_userProfile :: json
  ctx_learningAnalysis :: "json option"
  ctx_enhancedContext :: "json option"
  ctx_previousBlocks :: "json list"
  ctx_conversationSummary :: string

definition choice_of_option :: "json option \<Rightarrow> json \<Rightarrow> error + json" where
  \<comment> \<open>The callback of \<open>step.options.map\<close>; reading a field of the option \<open>null\<close> throws.\<close>
  "choice_of_option learningAnalysis opt =
     (if opt = JNull then Inl TypeError
      else Inr (JObj [(''text'', or_else (field opt ''text'') (JStr ''Choose'')),
                      (''next_block'', or_else (field opt ''next'') JNull),
                      (''consequence'', or_else (field opt ''consequence'') JNull),
                      (''learning_value'', or_else (field opt ''learning_value'') JNull),
                      (''difficulty_level'',
                       or_else (opt_field learningAnalysis ''currentLevel'') (JStr ''adaptive''))]))"

definition default_choices :: "json list" where
  "default_choices =
     [JObj [(''text'', JStr ''Explore Path A''), (''next_block'', JNull),
            (''consequence'', JStr ''Different examples''),
            (''learning_value'', JStr ''Application focus''),
            (''difficulty_level'', JStr ''adaptive'')],
      JObj [(''text'', JStr ''Explore Path B''), (''next_block'', JNull),
            (''consequence'', JStr ''Different examples''),
            (''learning_value'', JStr ''Concept focus''),
            (''difficulty_level'', JStr ''adaptive'')]]"

definition choice_block :: "json \<Rightarrow> GenContext \<Rightarrow> error + json" where
  "choice_block step ctx =
     (case (case field step ''options'' of
              Some (JArr (opt # opts)) \<Rightarrow>
                collect (map (choice_of_option (ctx_learningAnalysis ctx)) (opt # opts))
            | _ \<Rightarrow> Inr default_choices) of
        Inl e \<Rightarrow> Inl e
      | Inr choices \<Rightarrow>
          Inr (JObj
            (entry ''block_id'' (field step ''id'')
             @ [(''type'', JStr ''choice'')]
             @ entry ''title'' (field step ''title'')
             @ [(''content'', JStr ''Choose your next course of action to continue the mission.'')]
             @ entry ''learning_goal'' (field step ''objective'')
             @ [(''choices'', JArr choices),
                (''llm_instruction'',
                 JStr ''Present options neutrally. After user selects, branch to indicated next block.'')])))"

definition image_block :: "json \<Rightarrow> json" where
  "image_block step =
     JObj
       (entry ''block_id'' (field step ''id'')
        @ [(''type'', JStr ''image'')]
        @ entry ''title'' (field step ''title'')
        @ entry ''content'' (field step ''objective'')
        @ entry ''learning_goal'' (field step ''objective'')
        @ [(''media'', JObj [(''image'', JStr ''/images/space_scene.png'')]),
           (''llm_instruction'',
            JStr ''Use the image to anchor the brief explanation. Invite observation.'')])"

definition fallback_block :: "string \<Rightarrow> json \<Rightarrow> error + json" where
  \<comment> \<open>The block of the \<open>catch\<close>. Its content is a template literal around the objective of
      the step, whose conversion to a string can throw again.\<close>
  "fallback_block type step =
     (case text_of (field step ''objective'') of
        Inl e \<Rightarrow> Inl e
      | Inr objective \<Rightarrow>
          Inr (JObj
            (entry ''block_id'' (field step ''id'')
             @ [(''type'', JStr type)]
             @ entry ''title'' (field step ''title'')
             @ [(''content'', JStr (''This slide covers: '' @ objective))]
             @ entry ''learning_goal'' (field step ''objective'')
             @ [(''media'', JObj [(''image'', JStr ''/images/mars_base_dark.png'')]),
                (''llm_instruction'', JStr ''Provide supportive, encouraging guidance.''),
                (''error'', JStr ''Fallback content due to AI error'')])))"

definition learner_style :: "json \<Rightarrow> json" where
  \<comment> \<open>\<open>userProfile?.learning?.preferredStyle || userProfile?.learningStyle || 'multimodal'\<close>\<close>
  "learner_style userProfile =
     or_else (opt_field (field userProfile ''learning'') ''preferredStyle'')
       (or_else (field userProfile ''learningStyle'') (JStr ''multimodal''))"

definition learner_name :: "json \<Rightarrow> json" where
  \<comment> \<open>\<open>userProfile?.identity?.name || userProfile?.name || 'Explorer'\<close>\<close>
  "learner_name userProfile =
     or_else (opt_field (field userProfile ''identity'') ''name'')
       (or_else (field userProfile ''name'') (JStr ''Explorer''))"

definition prompt_values :: "string \<Rightarrow> json \<Rightarrow> json \<Rightarrow> json option list" where
  \<comment> \<open>The values that the prompt of a step writes into its text (prompts.js): those of the
      quiz prompt, of the reflection prompt and of the narration prompt.\<close>
  "prompt_values type step userProfile =
     (if type = ''quiz''
      then [Some (learner_style userProfile), field step ''objective'', field step ''title'',
            field step ''id'']
      else if type = ''reflection''
      then [Some (learner_name userProfile), field step ''objective'', field step ''id'',
            field step ''title'']
      else [Some (learner_style userProfile), Some (learner_name userProfile), field step ''id'',
            field step ''title'', field step ''objective''])"

definition prompt_throws :: "string \<Rightarrow> json \<Rightarrow> json \<Rightarrow> bool" where
  \<comment> \<open>Building the prompt throws when one of these values cannot be converted to a string.\<close>
  "prompt_throws type step userProfile =
     list_ex (\<lambda>v. case v of Some x \<Rightarrow> \<not> coercible x | None \<Rightarrow> False)
       (prompt_values type step userProfile)"

definition generate_attempt ::
  "(string \<Rightarrow> json option) \<Rightarrow> svc_result \<Rightarrow> string \<Rightarrow> json \<Rightarrow> GenContext \<Rightarrow> error + json"
where
  \<comment> \<open>The body of the \<open>try\<close> of \<open>generateContentForStep\<close>, for a step that is not \<open>null\<close>.\<close>
  "generate_attempt parse service type step ctx =
     (if type = ''choice'' then choice_block step ctx
      else if type = ''image'' then Inr (image_block step)
      else if prompt_throws type step (ctx_userProfile ctx) then Inl TypeError
      else
        (case service of
           Throws msg \<Rightarrow> Inl (Error msg)
         | Returns response \<Rightarrow>
             (case parseAIJSONResponse parse response of
                Inr parsed \<Rightarrow> Inr parsed
              | Inl e \<Rightarrow>
                  (case parse (fixCommonJSONIssues response) of
                     Some v \<Rightarrow> Inr v
                   | None \<Rightarrow> Inl SyntaxError))))"

definition generateContentForStep ::
  "(string \<Rightarrow> json option) \<Rightarrow> svc_result \<Rightarrow> json option \<Rightarrow> GenContext \<Rightarrow> error + json"
where
  \<comment> \<open>The type is read before the \<open>try\<close>: a step that is \<open>undefined\<close> or \<open>null\<close>, and a type
      that cannot be converted to a string, throw out of the function.\<close>
  "generateContentForStep parse service step ctx =
     (case step of
        None \<Rightarrow> Inl TypeError
      | Some s \<Rightarrow>
          if s = JNull then Inl TypeError
          else
            (case string_of (or_else (field s ''type'') (JStr ''narration'')) of
               Inl e \<Rightarrow> Inl e
             | Inr t \<Rightarrow>
                 (case generate_attempt parse service (toLowerCase t) s ctx of
                    Inr r \<Rightarrow> Inr r
                  | Inl e \<Rightarrow> fallback_block (toLowerCase t) s)))"

section \<open>The session state machine (lessonSessionEngine.js)\<close>

text \<open>
  The state holds the fields that the session operations read or write. The collaborators
  of one operation are given by their outcomes: \<open>None\<close> is a rejected call, and \<open>generation\<close>
  is the outcome of the generation service for the prompt of a step in a context. An
  operation returns its result, or the exception it throws, together with the session store
  as the operation leaves it.
\<close>

record Lesson =
  mission_id :: string
  lesson_title :: string
  blocks :: "json list"

record SessionState =
  sessionId :: string
  user_id :: string
  lesson :: Lesson
  personalization :: jobject
  enhancedContext :: json
  conversationSummary :: string
  topic :: string
  userProfile :: json
  plan :: "json list"
  planIndexById :: "string \<rightharpoonup> nat"
  blockIndex :: nat
  turnIndex :: nat
  turnsByBlock :: "nat \<rightharpoonup> Turn list"
  lastAssessment :: "json option"

record Collaborators =
  insights :: "jobject option"
  enhanced :: "json option"
  summary :: "string option"
  generation :: "json \<Rightarrow> GenContext \<Rightarrow> svc_result"
  assess :: "json option"
  feedback_service :: svc_result
  advise :: "jobject option"

record Payload =
  p_sessionId :: string
  p_missionId :: string
  p_title :: string
  blockId :: "json option"
  blockType :: "json option"
  index_block :: nat
  index_turn :: nat
  tutor_say :: "string option"
  tutor_question :: "json option"
  tutor_media :: "json option"
  p_choices :: "json option"
  next_hint :: "string option"
  p_done :: bool

datatype feedback = DefaultFeedback | ParsedFeedback json

record Recommendation =
  next_actions :: "json option"
  methodology :: "json option"

datatype response =
    TurnPayload Payload
  | AwaitingChoice Payload
  | Done string
  | Branched "json option" Payload
  | Feedback "json option" feedback "Recommendation option"

datatype user_response =
    RString string
  | RSelection "int option" "string option"
  | RNull

text \<open>
  \<open>RSelection i t\<close> is an object response with its fields \<open>choiceIndex\<close> (an integer) and
  \<open>choiceText\<close> (a string), \<open>None\<close> for a field that is absent or \<open>null\<close>. \<open>RNull\<close> is the
  response \<open>null\<close>, whose type is \<open>object\<close> too.
\<close>

definition OBJECT_PROTOTYPE :: "string list" where
  \<comment> \<open>The names that every plain object inherits from \<open>Object.prototype\<close>.\<close>
  "OBJECT_PROTOTYPE =
     [''constructor'', ''hasOwnProperty'', ''isPrototypeOf'', ''propertyIsEnumerable'',
      ''toLocaleString'', ''toString'', ''valueOf'', ''__proto__'', ''__defineGetter__'',
      ''__defineSetter__'', ''__lookupGetter__'', ''__lookupSetter__'']"

datatype slot = Index nat | Inherited | Absent

definition lookup :: "(string \<rightharpoonup> nat) \<Rightarrow> string \<Rightarrow> slot" where
  \<comment> \<open>\<open>state.planIndexById[k]\<close>. The index is a plain object: a name that is not a property
      of its own is looked up in \<open>Object.prototype\<close>, where it finds a method or, for
      \<open>__proto__\<close>, the prototype itself, and is \<open>undefined\<close> only when it is not there
      either.\<close>
  "lookup index k =
     (case index k of
        Some i \<Rightarrow> Index i
      | None \<Rightarrow> if k \<in> set OBJECT_PROTOTYPE then Inherited else Absent)"

definition step_key :: "json \<Rightarrow> string" where
  \<comment> \<open>The property key of \<open>s.id\<close>, for a step whose id can be converted.\<close>
  "step_key s = (case field s ''id'' of Some v \<Rightarrow> to_String v | None \<Rightarrow> ''undefined'')"

definition index_by_id :: "json list \<Rightarrow> string \<rightharpoonup> nat" where
  \<comment> \<open>\<open>Object.fromEntries(planSteps.map((s, i) => [s.id, i]))\<close>, the index that
      \<open>startSession\<close> stores in \<open>planIndexById\<close>: of two steps with one key the later wins.\<close>
  "index_by_id steps = map_of (rev (zip (map step_key steps) [0..<length steps]))"

type_synonym sessions = "string \<rightharpoonup> SessionState"

definition sessionKey :: "string \<Rightarrow> string \<Rightarrow> string" where
  "sessionKey userId missionId = userId @ '':'' @ missionId"

definition requireSession :: "sessions \<Rightarrow> string \<Rightarrow> string \<Rightarrow> error + SessionState" where
  "requireSession ss userId missionId =
     (case ss (sessionKey userId missionId) of
        None \<Rightarrow> Inl (Error ''Session not found'')
      | Some st \<Rightarrow> Inr st)"

definition is_choice :: "json \<Rightarrow> error + bool" where
  \<comment> \<open>\<open>(block?.type || '').toLowerCase() === 'choice'\<close>\<close>
  "is_choice block =
     (case lower_text (field block ''type'') of
        Inl e \<Rightarrow> Inl e
      | Inr t \<Rightarrow> Inr (t = ''choice''))"

definition turns_of :: "SessionState \<Rightarrow> nat \<Rightarrow> Turn list" where
  \<comment> \<open>\<open>state.turnsByBlock.get(i) || []\<close>\<close>
  "turns_of st i = (case turnsByBlock st i of Some ts \<Rightarrow> ts | None \<Rightarrow> [])"

definition ensureTurnsForBlock :: "SessionState \<Rightarrow> nat \<Rightarrow> error + SessionState" where
  \<comment> \<open>Reading the content of a block that is \<open>undefined\<close> or \<open>null\<close> throws a TypeError.\<close>
  "ensureTurnsForBlock st i =
     (if turnsByBlock st i \<noteq> None then Inr st
      else
        (case nth_opt (blocks (lesson st)) i of
           None \<Rightarrow> Inl TypeError
         | Some block \<Rightarrow>
             if block = JNull then Inl TypeError
             else
               (case block_turns (field block ''content'') (field block ''tutoring_elements'') of
                  Inl e \<Rightarrow> Inl e
                | Inr turns \<Rightarrow> Inr (st\<lparr>turnsByBlock := (turnsByBlock st)(i \<mapsto> turns)\<rparr>))))"

definition currentTurnPayload :: "SessionState \<Rightarrow> error + Payload" where
  "currentTurnPayload st =
     (case nth_opt (blocks (lesson st)) (blockIndex st) of
        None \<Rightarrow> Inl TypeError
      | Some block \<Rightarrow>
          if block = JNull then Inl TypeError
          else
            (case is_choice block of
               Inl e \<Rightarrow> Inl e
             | Inr choice \<Rightarrow>
                 (let turns = turns_of st (blockIndex st);
                      turn = (case nth_opt turns (turnIndex st) of
                                Some t \<Rightarrow> t
                              | None \<Rightarrow> \<lparr>say = Some ''Continuing...'', question = None,
                                         meta_type = []\<rparr>)
                  in Inr \<lparr>p_sessionId = sessionId st,
                          p_missionId = mission_id (lesson st),
                          p_title = lesson_title (lesson st),
                          blockId = field block ''block_id'',
                          blockType = field block ''type'',
                          index_block = blockIndex st,
                          index_turn = turnIndex st,
                          tutor_say = say turn,
                          tutor_question = question turn,
                          tutor_media = present (field block ''media''),
                          p_choices = (if choice
                                       then Some (or_else (field block ''choices'') (JArr []))
                                       else None),
                          next_hint = (case present (field block ''llm_instruction'') of
                                         Some i \<Rightarrow> Some ''Tutor will guide with short, supportive turns.''
                                       | None \<Rightarrow> None),
                          p_done = False\<rparr>)))"

definition refresh :: "Collaborators \<Rightarrow> SessionState \<Rightarrow> SessionState" where
  \<comment> \<open>The three refreshed snapshots; a rejected call keeps the one the state has.\<close>
  "refresh env st =
     st\<lparr>personalization := (case insights env of Some p \<Rightarrow> p | None \<Rightarrow> personalization st),
        enhancedContext := (case enhanced env of Some c \<Rightarrow> c | None \<Rightarrow> enhancedContext st),
        conversationSummary := (case summary env of Some t \<Rightarrow> t | None \<Rightarrow> conversationSummary st)\<rparr>"

definition gen_context :: "SessionState \<Rightarrow> GenContext" where
  "gen_context st =
     \<lparr>ctx_topic = topic st,
      ctx_userProfile = userProfile st,
      ctx_learningAnalysis = present (map_of (personalization st) ''learningAnalysis''),
      ctx_enhancedContext = Some (enhancedContext st),
      ctx_previousBlocks = blocks (lesson st),
      ctx_conversationSummary = conversationSummary st\<rparr>"

definition finish :: "(Payload \<Rightarrow> response) \<Rightarrow> SessionState \<Rightarrow> (error + response) \<times> SessionState" where
  \<comment> \<open>\<open>return wrap(this._currentTurnPayload(state))\<close>\<close>
  "finish wrap st =
     (case currentTurnPayload st of
        Inl e \<Rightarrow> (Inl e, st)
      | Inr p \<Rightarrow> (Inr (wrap p), st))"

definition memoize_and_finish ::
  "(Payload \<Rightarrow> response) \<Rightarrow> SessionState \<Rightarrow> (error + response) \<times> SessionState"
where
  \<comment> \<open>\<open>await this._ensureTurnsForBlock(state, state.blockIndex)\<close> and the return.\<close>
  "memoize_and_finish wrap st =
     (case ensureTurnsForBlock st (blockIndex st) of
        Inl e \<Rightarrow> (Inl e, st)
      | Inr st' \<Rightarrow> finish wrap st')"

definition pushed :: "SessionState \<Rightarrow> json \<Rightarrow> SessionState" where
  \<comment> \<open>\<open>state.lesson.blocks.push(nextBlock); state.blockIndex += 1; state.turnIndex = 0\<close>\<close>
  "pushed st nextBlock =
     st\<lparr>lesson := (lesson st)\<lparr>blocks := blocks (lesson st) @ [nextBlock]\<rparr>,
        blockIndex := blockIndex st + 1,
        turnIndex := 0\<rparr>"

definition advance ::
  "(Payload \<Rightarrow> response) \<Rightarrow> (string \<Rightarrow> json option) \<Rightarrow> Collaborators \<Rightarrow> SessionState \<Rightarrow> json
     \<Rightarrow> (error + response) \<times> SessionState"
where
  \<comment> \<open>The lines shared by \<open>nextTurn\<close> and \<open>submitResponse\<close>: refresh the snapshots, generate
      the block of the step, push it, move the cursor, memoize the turns and return the
      payload. An exception of the generator leaves the refreshed snapshots behind; one of
      \<open>_ensureTurnsForBlock\<close> or of the payload leaves the pushed block and the moved cursor.\<close>
  "advance wrap parse env st nextStep =
     (let st1 = refresh env st;
          ctx = gen_context st1
      in case generateContentForStep parse (generation env nextStep ctx) (Some nextStep) ctx of
           Inl e \<Rightarrow> (Inl e, st1)
         | Inr nextBlock \<Rightarrow> memoize_and_finish wrap (pushed st1 nextBlock))"

definition current_step_index :: "SessionState \<Rightarrow> json \<Rightarrow> error + nat option" where
  \<comment> \<open>\<open>state.planIndexById[block.block_id] ?? state.blockIndex\<close>, for a block that is not
      \<open>null\<close>. \<open>None\<close> stands for the value of an inherited property: it is not \<open>undefined\<close>,
      so the position of the block does not replace it, and it is no number, so that the
      index after it (\<open>... + 1\<close>, a text) names no element of the plan.\<close>
  "current_step_index st block =
     (case text_of (field block ''block_id'') of
        Inl e \<Rightarrow> Inl e
      | Inr k \<Rightarrow>
          Inr (case lookup (planIndexById st) k of
                 Index i \<Rightarrow> Some i
               | Inherited \<Rightarrow> None
               | Absent \<Rightarrow> Some (blockIndex st)))"

definition step_after :: "SessionState \<Rightarrow> nat option \<Rightarrow> json option" where
  \<comment> \<open>\<open>state.plan[idx + 1]\<close>\<close>
  "step_after st idx = (case idx of Some i \<Rightarrow> nth_opt (plan st) (i + 1) | None \<Rightarrow> None)"

definition nextTurn_body ::
  "(string \<Rightarrow> json option) \<Rightarrow> Collaborators \<Rightarrow> SessionState \<Rightarrow> (error + response) \<times> SessionState"
where
  "nextTurn_body parse env st =
     (let bi = blockIndex st;
          ti = turnIndex st;
          turns = turns_of st bi;
          bs = blocks (lesson st)
      in if ti + 1 < length turns then finish TurnPayload (st\<lparr>turnIndex := ti + 1\<rparr>)
         else
           (case (case nth_opt bs bi of Some b \<Rightarrow> is_choice b | None \<Rightarrow> Inr False) of
              Inl e \<Rightarrow> (Inl e, st)
            | Inr choice \<Rightarrow>
                if choice
                then finish (\<lambda>p. AwaitingChoice
                                   (p\<lparr>p_choices := Some (or_else (field (bs ! bi) ''choices'') (JArr []))\<rparr>)) st
                else if bi + 1 < length bs
                then memoize_and_finish TurnPayload (st\<lparr>blockIndex := bi + 1, turnIndex := 0\<rparr>)
                else
                  (case nth_opt bs bi of
                     None \<Rightarrow> (Inl TypeError, st)
                   | Some currentBlock \<Rightarrow>
                       if currentBlock = JNull then (Inl TypeError, st)
                       else
                         (case current_step_index st currentBlock of
                            Inl e \<Rightarrow> (Inl e, st)
                          | Inr idx \<Rightarrow>
                              (case present (step_after st idx) of
                                 Some nextStep \<Rightarrow> advance TurnPayload parse env st nextStep
                               | None \<Rightarrow> (Inr (Done ''Lesson complete. Great job!''), st))))))"

definition nextTurn ::
  "(string \<Rightarrow> json option) \<Rightarrow> Collaborators \<Rightarrow> sessions \<Rightarrow> string \<Rightarrow> string
     \<Rightarrow> (error + response) \<times> sessions"
where
  "nextTurn parse env ss userId missionId =
     (case requireSession ss userId missionId of
        Inl e \<Rightarrow> (Inl e, ss)
      | Inr st \<Rightarrow>
          (case nextTurn_body parse env st of
             (r, st') \<Rightarrow> (r, ss(sessionKey userId missionId \<mapsto> st'))))"

fun find_choice :: "string \<Rightarrow> json list \<Rightarrow> error + json option" where
  \<comment> \<open>\<open>choices.find(c => (c.text || '').toLowerCase() === t)\<close>: the first choice with the
      text, unless an earlier choice makes the callback throw.\<close>
  "find_choice t [] = Inr None"
| "find_choice t (c # cs) =
     (if c = JNull then Inl TypeError
      else
        (case lower_text (field c ''text'') of
           Inl e \<Rightarrow> Inl e
         | Inr s \<Rightarrow> if s = t then Inr (Some c) else find_choice t cs))"

definition selectable :: "json \<Rightarrow> json list" where
  \<comment> \<open>\<open>Array.isArray(block.choices) ? block.choices : []\<close>\<close>
  "selectable block = (case field block ''choices'' of Some (JArr cs) \<Rightarrow> cs | _ \<Rightarrow> [])"

definition resolve_choice :: "json list \<Rightarrow> int option \<Rightarrow> string option \<Rightarrow> error + json option" where
  \<comment> \<open>\<open>chosen\<close>: the choice at the index when there is a truthy one, else, for a selection
      text that is not empty, the first choice whose text is that text up to case.\<close>
  "resolve_choice chs selectionIndex selectionText =
     (case (case selectionIndex of
              Some i \<Rightarrow> if 0 \<le> i then present (nth_opt chs (nat i)) else None
            | None \<Rightarrow> None) of
        Some c \<Rightarrow> Inr (Some c)
      | None \<Rightarrow>
          (case selectionText of
             Some t \<Rightarrow> if t = [] then Inr None else find_choice (toLowerCase t) chs
           | None \<Rightarrow> Inr None))"

definition branch_target :: "SessionState \<Rightarrow> json \<Rightarrow> json option \<Rightarrow> error + json option" where
  \<comment> \<open>\<open>nextStep\<close> of \<open>submitResponse\<close>, for a block that is not \<open>null\<close>. Both indices are
      computed, and each can throw, before one of them is used; the value of an inherited
      property names no element of the plan.\<close>
  "branch_target st block chosen =
     (case (case present (opt_field chosen ''next_block'') of
              None \<Rightarrow> Inr Absent
            | Some nextId \<Rightarrow>
                (case string_of nextId of
                   Inl e \<Rightarrow> Inl e
                 | Inr k \<Rightarrow> Inr (lookup (planIndexById st) k))) of
        Inl e \<Rightarrow> Inl e
      | Inr nextIdx \<Rightarrow>
          (case current_step_index st block of
             Inl e \<Rightarrow> Inl e
           | Inr idx \<Rightarrow>
               Inr (case nextIdx of
                      Index j \<Rightarrow> nth_opt (plan st) j
                    | Inherited \<Rightarrow> None
                    | Absent \<Rightarrow> step_after st idx)))"

definition compose_feedback :: "(string \<Rightarrow> json option) \<Rightarrow> svc_result \<Rightarrow> feedback" where
  "compose_feedback parse service =
     (case service of
        Throws msg \<Rightarrow> DefaultFeedback
      | Returns resp \<Rightarrow>
          (case parseAIJSONResponse parse resp of
             Inr v \<Rightarrow> ParsedFeedback v
           | Inl e \<Rightarrow> DefaultFeedback))"

definition maybeRecommendNext :: "Collaborators \<Rightarrow> Recommendation option" where
  "maybeRecommendNext env =
     (case advise env of
        None \<Rightarrow> None
      | Some strategy \<Rightarrow>
          Some \<lparr>next_actions = opt_field (map_of strategy ''actions'') ''immediate_actions'',
                methodology = opt_field (map_of strategy ''methodology'') ''primary_methodology''\<rparr>)"

definition selectionIndex :: "user_response \<Rightarrow> int option" where
  \<comment> \<open>\<open>typeof userResponse === 'object' ? (userResponse.choiceIndex ?? null) : null\<close>\<close>
  "selectionIndex r = (case r of RSelection i t \<Rightarrow> i | _ \<Rightarrow> None)"

definition selectionText :: "user_response \<Rightarrow> string option" where
  \<comment> \<open>\<open>typeof userResponse === 'object' ? (userResponse.choiceText ?? null) : null\<close>\<close>
  "selectionText r = (case r of RSelection i t \<Rightarrow> t | _ \<Rightarrow> None)"

definition printable :: "json option \<Rightarrow> bool" where
  \<comment> \<open>Whether a template literal can hold the value.\<close>
  "printable v = (case v of Some x \<Rightarrow> coercible x | None \<Rightarrow> True)"

definition submitResponse_body ::
  "(string \<Rightarrow> json option) \<Rightarrow> Collaborators \<Rightarrow> SessionState \<Rightarrow> user_response
     \<Rightarrow> (error + response) \<times> SessionState"
where
  \<comment> \<open>The type of a block that is \<open>undefined\<close> or \<open>null\<close> is read, and throws, before the
      assessment is stored. Reading \<open>choiceIndex\<close> of the response \<open>null\<close> throws after it,
      and so does the feedback prompt, a template literal around the title and the learning
      goal of the block.\<close>
  "submitResponse_body parse env st userResponse =
     (case nth_opt (blocks (lesson st)) (blockIndex st) of
        None \<Rightarrow> (Inl TypeError, st)
      | Some block \<Rightarrow>
          if block = JNull then (Inl TypeError, st)
          else
            (let st0 = st\<lparr>lastAssessment := assess env\<rparr>
             in case is_choice block of
                  Inl e \<Rightarrow> (Inl e, st0)
                | Inr choice \<Rightarrow>
                    if choice then
                      (if userResponse = RNull then (Inl TypeError, st0)
                       else
                         (case resolve_choice (selectable block) (selectionIndex userResponse)
                                 (selectionText userResponse) of
                            Inl e \<Rightarrow> (Inl e, st0)
                          | Inr chosen \<Rightarrow>
                              (case branch_target st0 block chosen of
                                 Inl e \<Rightarrow> (Inl e, st0)
                               | Inr target \<Rightarrow>
                                   (case present target of
                                      Some nextStep \<Rightarrow> advance (Branched chosen) parse env st0 nextStep
                                    | None \<Rightarrow> finish (Branched chosen) st0))))
                    else if printable (field block ''title'') \<and> printable (field block ''learning_goal'')
                    then (Inr (Feedback (assess env)
                                        (compose_feedback parse (feedback_service env))
                                        (maybeRecommendNext env)), st0)
                    else (Inl TypeError, st0)))"



record StartRequest =
  req_topic :: "string option"
  req_baseLesson :: "string option"

record Start =
  profile :: "json option"
  planned :: "json list"
  now :: nat

text \<open>
  What \<open>startSession\<close> gets from outside: the user profile (\<open>None\<close> for a rejected call), the
  steps that \<open>lessonPlanner.createPlan\<close> returned and the time of \<open>Date.now()\<close>.
\<close>

definition indexable :: "json \<Rightarrow> bool" where
  \<comment> \<open>Whether \<open>[s.id, i]\<close> can be made an entry of the index: \<open>s\<close> is not \<open>null\<close> and its id
      can be converted to a property key.\<close>
  "indexable s = (s \<noteq> JNull \<and> printable (field s ''id''))"

definition startSession ::
  "(string \<Rightarrow> json option) \<Rightarrow> Start \<Rightarrow> Collaborators \<Rightarrow> sessions \<Rightarrow> string \<Rightarrow> string \<Rightarrow> StartRequest
     \<Rightarrow> (error + response) \<times> sessions"
where
  \<comment> \<open>The session is put in the store after its first turns are memoized and before the
      payload is made.\<close>
  "startSession parse start env ss userId userName request =
     (let topic0 = (case req_topic request of
                      Some (c # cs) \<Rightarrow> c # cs
                    | _ \<Rightarrow> (case req_baseLesson request of
                             Some (c # cs) \<Rightarrow> c # cs
                           | _ \<Rightarrow> ''space_exploration''));
          profile0 = (case profile start of
                        Some p \<Rightarrow> p
                      | None \<Rightarrow> JObj [(''identity'',
                                        JObj [(''name'', JStr (if userName = [] then ''Explorer''
                                                              else userName))]),
                                       (''learning'', JObj [])]);
          missionId = ''dynamic_lesson_'' @ show_nat (now start);
          key = sessionKey userId missionId;
          personalization0 = (case insights env of Some p \<Rightarrow> p | None \<Rightarrow> []);
          enhanced0 = (case enhanced env of Some c \<Rightarrow> c | None \<Rightarrow> JObj []);
          summary0 = (case summary env of Some t \<Rightarrow> t | None \<Rightarrow> []);
          ctx = \<lparr>ctx_topic = topic0, ctx_userProfile = profile0,
                 ctx_learningAnalysis = present (map_of personalization0 ''learningAnalysis''),
                 ctx_enhancedContext = Some enhanced0,
                 ctx_previousBlocks = [],
                 ctx_conversationSummary = summary0\<rparr>;
          first = nth_opt (planned start) 0
      in case generateContentForStep parse
                (case first of Some s \<Rightarrow> generation env s ctx | None \<Rightarrow> Throws [])
                first ctx of
           Inl e \<Rightarrow> (Inl e, ss)
         | Inr firstBlock \<Rightarrow>
             if \<not> list_all indexable (planned start) then (Inl TypeError, ss)
             else
               (let state =
                      \<lparr>sessionId = key, user_id = userId,
                       lesson = \<lparr>mission_id = missionId, lesson_title = ''Mission: '' @ topic0,
                                 blocks = [firstBlock]\<rparr>,
                       personalization = personalization0, enhancedContext = enhanced0,
                       conversationSummary = summary0, topic = topic0, userProfile = profile0,
                       plan = planned start, planIndexById = index_by_id (planned start),
                       blockIndex = 0, turnIndex = 0, turnsByBlock = Map.empty,
                       lastAssessment = None\<rparr>
                in case ensureTurnsForBlock state 0 of
                     Inl e \<Rightarrow> (Inl e, ss)
                   | Inr st \<Rightarrow>
                       (case currentTurnPayload st of
                          Inl e \<Rightarrow> (Inl e, ss(key \<mapsto> st))
                        | Inr p \<Rightarrow> (Inr (TurnPayload p), ss(key \<mapsto> st)))))"

section \<open>Scenarios\<close>

text \<open>Concrete inputs on which the functions above are run.\<close>

definition quoted :: "string \<Rightarrow> string" where
  \<comment> \<open>The text between double quotes.\<close>
  "quoted t = CHR 0x22 # t @ [CHR 0x22]"








definition memoized :: "json \<Rightarrow> Turn list" where
  \<comment> \<open>The turns that \<open>_ensureTurnsForBlock\<close> stores for a block.\<close>
  "memoized block =
     (case block_turns (field block ''content'') (field block ''tutoring_elements'') of
        Inr turns \<Rightarrow> turns
      | Inl e \<Rightarrow> [])"

definition session_on :: "json list \<Rightarrow> json \<Rightarrow> SessionState" where
  \<comment> \<open>A session on its first block, as \<open>startSession\<close> stores it: one block, its turns
      memoized, the cursor at (0, 0).\<close>
  "session_on steps first =
     \<lparr>sessionId = ''u1:m1'', user_id = ''u1'',
      lesson = \<lparr>mission_id = ''m1'', lesson_title = ''Mission: orbits'', blocks = [first]\<rparr>,
      personalization = [], enhancedContext = JObj [], conversationSummary = [],
      topic = ''orbits'', userProfile = JObj [],
      plan = steps,
      planIndexById = index_by_id steps,
      blockIndex = 0, turnIndex = 0,
      turnsByBlock = [0 \<mapsto> memoized first],
      lastAssessment = None\<rparr>"

definition store_of :: "SessionState \<Rightarrow> sessions" where
  "store_of st = [''u1:m1'' \<mapsto> st]"

definition quiet :: Collaborators where
  \<comment> \<open>Every collaborator is down.\<close>
  "quiet =
     \<lparr>insights = None, enhanced = None, summary = None,
      generation = (\<lambda>step ctx. Throws ''unavailable''),
      assess = None, feedback_service = Throws ''unavailable'', advise = None\<rparr>"









definition path_choice_step :: json where
  \<comment> \<open>The choice step of Scenario B.\<close>
  "path_choice_step =
     JObj [(''id'', JStr ''s1''), (''type'', JStr ''choice''), (''title'', JStr ''Pick a path''),
           (''objective'', JStr ''Choose''), (''estimated_minutes'', JNum 2),
           (''options'', JArr [JObj [(''text'', JStr ''A''), (''next'', JStr ''s3'')],
                               JObj [(''text'', JStr ''B''), (''next'', JStr ''s2'')]])]"

definition path_a_step :: json where
  "path_a_step =
     JObj [(''id'', JStr ''s2''), (''type'', JStr ''narration''), (''title'', JStr ''Path A''),
           (''objective'', JStr ''Apply''), (''estimated_minutes'', JNum 3)]"

definition path_b_step :: json where
  "path_b_step =
     JObj [(''id'', JStr ''s3''), (''type'', JStr ''quiz''), (''title'', JStr ''Path B''),
           (''objective'', JStr ''Recall''), (''estimated_minutes'', JNum 3)]"

definition closing_step :: json where
  "closing_step =
     JObj [(''id'', JStr ''s4''), (''type'', JStr ''narration''), (''title'', JStr ''Closing''),
           (''objective'', JStr ''Sum up''), (''estimated_minutes'', JNum 1)]"


definition plain_context :: GenContext where
  "plain_context =
     \<lparr>ctx_topic = ''orbits'', ctx_userProfile = JObj [], ctx_learningAnalysis = None,
      ctx_enhancedContext = Some (JObj []), ctx_previousBlocks = [], ctx_conversationSummary = []\<rparr>"

definition built :: "json \<Rightarrow> json" where
  \<comment> \<open>The block that \<open>generateContentForStep\<close> returns for a step when the generation
      service is down.\<close>
  "built step =
     (case generateContentForStep (\<lambda>t. None) (Throws ''unavailable'') (Some step) plain_context of
        Inr block \<Rightarrow> block
      | Inl e \<Rightarrow> JNull)"

definition path_choice_block :: json where
  "path_choice_block = built path_choice_step"

definition branching_session :: SessionState where
  "branching_session = session_on [path_choice_step, path_a_step, path_b_step] path_choice_block"

definition branched_session :: SessionState where
  \<comment> \<open>A session that has branched from the choice step \<open>s1\<close> over the step \<open>s2\<close> to the step
      \<open>s3\<close>: its third block, at position 2, is the block of the third of four steps.\<close>
  "branched_session =
     (session_on [path_choice_step, path_a_step, path_b_step, closing_step] path_choice_block)
       \<lparr>lesson := \<lparr>mission_id = ''m1'', lesson_title = ''Mission: orbits'',
                    blocks = [path_choice_block, built path_b_step]\<rparr>,
        blockIndex := 1,
        turnsByBlock := [0 \<mapsto> memoized path_choice_block, 1 \<mapsto> memoized (built path_b_step)]\<rparr>"






definition scenario_c_text :: string where
  \<comment> \<open>Scenario C: \<open>{a:1, b:2,}\<close>\<close>
  "scenario_c_text = ''{a:1, b:2,}''"

definition fenced_sample :: string where
  \<comment> \<open>A sample of the repository: the object with a trailing comma in a \<open>json\<close> fence.\<close>
  "fenced_sample =
     FENCE @ ''json'' @ [CHR 0x0A] @ ''{'' @ quoted ''a'' @ '':1,'' @ [CHR 0x0A] @ quoted ''b''
       @ '':2,}'' @ [CHR 0x0A] @ FENCE"

definition fenced_inner :: string where
  \<comment> \<open>The text inside the fence of \<open>fenced_sample\<close>.\<close>
  "fenced_inner = ''{'' @ quoted ''a'' @ '':1,'' @ [CHR 0x0A] @ quoted ''b'' @ '':2,}''"

definition fenced_repaired :: string where
  \<comment> \<open>\<open>fenced_inner\<close> without its trailing comma.\<close>
  "fenced_repaired = ''{'' @ quoted ''a'' @ '':1,'' @ [CHR 0x0A] @ quoted ''b'' @ '':2}''"

definition single_quoted_sample :: string where
  \<comment> \<open>\<open>{"a": 'x', "b":2}\<close>\<close>
  "single_quoted_sample =
     ''{'' @ quoted ''a'' @ '': '' @ [CHR 0x27] @ ''x'' @ [CHR 0x27] @ '', '' @ quoted ''b'' @ '':2}''"

definition well_formed_text :: string where
  \<comment> \<open>\<open>{"a":"1,]2"}\<close>\<close>
  "well_formed_text = ''{'' @ quoted ''a'' @ '':'' @ quoted ''1,]2'' @ ''}''"

definition trailing_comma_text :: string where
  \<comment> \<open>\<open>{"a":"1,]2",}\<close>: the text above with a trailing comma.\<close>
  "trailing_comma_text = ''{'' @ quoted ''a'' @ '':'' @ quoted ''1,]2'' @ '',}''"

definition single_quoted_array :: string where
  \<comment> \<open>\<open>['a']\<close>\<close>
  "single_quoted_array = ''['' @ [CHR 0x27] @ ''a'' @ [CHR 0x27] @ '']''"

definition step_s4 :: json where
  \<comment> \<open>The step of Scenario D.\<close>
  "step_s4 =
     JObj [(''id'', JStr ''s4''), (''type'', JStr ''narration''), (''title'', JStr ''Gravity''),
           (''objective'', JStr ''Explain gravity''), (''estimated_minutes'', JNum 3)]"

definition commented_text :: string where
  \<comment> \<open>A text that is no JSON and holds no object and no array: \<open>5 // five\<close>\<close>
  "commented_text = ''5 // five''"






fun alternates :: "string list \<Rightarrow> bool" where
  \<comment> \<open>The specification's "alternating": no two neighbours are the same.\<close>
  "alternates (x # y # ys) = (x \<noteq> y \<and> alternates (y # ys))"
| "alternates xs = True"

definition type_of :: "json \<Rightarrow> string" where
  "type_of s = (case field s ''type'' of Some (JStr t) \<Rightarrow> t | _ \<Rightarrow> [])"

definition option_targets :: "json \<Rightarrow> json option list" where
  \<comment> \<open>The \<open>next\<close> of each option of a step.\<close>
  "option_targets s =
     (case field s ''options'' of Some (JArr os) \<Rightarrow> map (\<lambda>opt. field opt ''next'') os | _ \<Rightarrow> [])"


definition step_ids :: "json list \<Rightarrow> json option list" where
  "step_ids steps = map (\<lambda>s. field s ''id'') steps"

definition other_types :: "json list \<Rightarrow> string list" where
  \<comment> \<open>The types of the steps that are not choice steps, in the order of the plan.\<close>
  "other_types steps = filter (\<lambda>t. t \<noteq> ''choice'') (map type_of steps)"

section \<open>The bounds on the loops are never reached\<close>

text \<open>
  The loops of the matcher, of \<open>split\<close> and of \<open>replace\<close> count their steps down from a
  bound. A larger bound gives the same result, so the bound cuts no loop short.
\<close>

lemma star_greedy_none:
  assumes "\<And>st. m st (\<lambda>x. None) = None"
  shows "star_greedy n m st (\<lambda>x. None) = None"
proof (induction n arbitrary: st)
  case 0
  show ?case by simp
next
  case (Suc n)
  have "(\<lambda>st'. if remaining st' < remaining st then star_greedy n m st' (\<lambda>x. None) else None)
          = (\<lambda>x. None)"
    using Suc.IH by auto
  then show ?case using assms by simp
qed

lemma star_lazy_none:
  assumes "\<And>st. m st (\<lambda>x. None) = None"
  shows "star_lazy n m st (\<lambda>x. None) = None"
proof (induction n arbitrary: st)
  case 0
  show ?case by simp
next
  case (Suc n)
  have "(\<lambda>st'. if remaining st' < remaining st then star_lazy n m st' (\<lambda>x. None) else None)
          = (\<lambda>x. None)"
    using Suc.IH by auto
  then show ?case using assms by simp
qed

lemma rmatch_none: "rmatch r st (\<lambda>x. None) = None"
proof (induction r arbitrary: st)
  case (RStar r)
  then show ?case by (simp add: star_greedy_none)
next
  case (RLazyStar r)
  then show ?case by (simp add: star_lazy_none)
qed (auto simp: one_char_def split: prod.splits list.splits)

lemma star_greedy_fuel:
  assumes "remaining st \<le> n"
  shows "star_greedy (Suc n) (rmatch r) st k = star_greedy n (rmatch r) st k"
  using assms
proof (induction n arbitrary: st)
  case 0
  then have "(\<lambda>st'. if remaining st' < remaining st then star_greedy 0 (rmatch r) st' k else None)
               = (\<lambda>x. None)"
    by auto
  then have "star_greedy (Suc 0) (rmatch r) st k
               = (case rmatch r st (\<lambda>x. None) of Some v \<Rightarrow> Some v | None \<Rightarrow> k st)"
    by (simp only: star_greedy.simps)
  then show ?case by (simp add: rmatch_none)
next
  case (Suc n)
  have inner: "(\<lambda>st'. if remaining st' < remaining st then star_greedy (Suc n) (rmatch r) st' k else None)
      = (\<lambda>st'. if remaining st' < remaining st then star_greedy n (rmatch r) st' k else None)"
  proof
    fix st'
    show "(if remaining st' < remaining st then star_greedy (Suc n) (rmatch r) st' k else None)
        = (if remaining st' < remaining st then star_greedy n (rmatch r) st' k else None)"
    proof (cases "remaining st' < remaining st")
      case True
      with Suc.prems have "remaining st' \<le> n" by simp
      from Suc.IH[OF this] True show ?thesis by (simp only: if_True)
    next
      case False
      then show ?thesis by (simp only: if_False)
    qed
  qed
  have "star_greedy (Suc (Suc n)) (rmatch r) st k
          = (case rmatch r st (\<lambda>st'. if remaining st' < remaining st
                                      then star_greedy (Suc n) (rmatch r) st' k else None) of
               Some v \<Rightarrow> Some v | None \<Rightarrow> k st)"
    by (rule star_greedy.simps(2))
  also have "\<dots> = (case rmatch r st (\<lambda>st'. if remaining st' < remaining st
                                      then star_greedy n (rmatch r) st' k else None) of
               Some v \<Rightarrow> Some v | None \<Rightarrow> k st)"
    by (simp only: inner)
  also have "\<dots> = star_greedy (Suc n) (rmatch r) st k"
    by (rule star_greedy.simps(2)[symmetric])
  finally show ?case .
qed

lemma star_lazy_fuel:
  assumes "remaining st \<le> n"
  shows "star_lazy (Suc n) (rmatch r) st k = star_lazy n (rmatch r) st k"
  using assms
proof (induction n arbitrary: st)
  case 0
  then have "(\<lambda>st'. if remaining st' < remaining st then star_lazy 0 (rmatch r) st' k else None)
               = (\<lambda>x. None)"
    by auto
  then have "star_lazy (Suc 0) (rmatch r) st k
               = (case k st of Some v \<Rightarrow> Some v | None \<Rightarrow> rmatch r st (\<lambda>x. None))"
    by (simp only: star_lazy.simps)
  then show ?case by (simp add: rmatch_none split: option.splits)
next
  case (Suc n)
  have inner: "(\<lambda>st'. if remaining st' < remaining st then star_lazy (Suc n) (rmatch r) st' k else None)
      = (\<lambda>st'. if remaining st' < remaining st then star_lazy n (rmatch r) st' k else None)"
  proof
    fix st'
    show "(if remaining st' < remaining st then star_lazy (Suc n) (rmatch r) st' k else None)
        = (if remaining st' < remaining st then star_lazy n (rmatch r) st' k else None)"
    proof (cases "remaining st' < remaining st")
      case True
      with Suc.prems have "remaining st' \<le> n" by simp
      from Suc.IH[OF this] True show ?thesis by (simp only: if_True)
    next
      case False
      then show ?thesis by (simp only: if_False)
    qed
  qed
  have "star_lazy (Suc (Suc n)) (rmatch r) st k
          = (case k st of Some v \<Rightarrow> Some v
             | None \<Rightarrow> rmatch r st (\<lambda>st'. if remaining st' < remaining st
                                          then star_lazy (Suc n) (rmatch r) st' k else None))"
    by (rule star_lazy.simps(2))
  also have "\<dots> = (case k st of Some v \<Rightarrow> Some v
             | None \<Rightarrow> rmatch r st (\<lambda>st'. if remaining st' < remaining st
                                          then star_lazy n (rmatch r) st' k else None))"
    by (simp only: inner)
  also have "\<dots> = star_lazy (Suc n) (rmatch r) st k"
    by (rule star_lazy.simps(2)[symmetric])
  finally show ?case .
qed

lemma match_at_end: "match_at r bef [] = Some (len, caps) \<Longrightarrow> len = 0"
  by (auto simp: match_at_def split: option.splits prod.splits)

lemma split_from_fuel:
  assumes "2 * length s + (if cur = [] then 0 else 1) < n"
  shows "split_from (Suc n) r bef cur s = split_from n r bef cur s"
  using assms
proof (induction n arbitrary: bef cur s)
  case 0
  then show ?case by simp
next
  case (Suc n)
  note unfold = split_from.simps(2)[of "Suc n" r bef cur s] split_from.simps(2)[of n r bef cur s]
  show ?case
  proof (cases s)
    case Nil
    then show ?thesis unfolding unfold by simp
  next
    case (Cons c cs)
    have "2 * length cs + (if c # cur = [] then 0 else 1) < n"
      using Suc.prems Cons by (simp split: if_splits)
    from Suc.IH[OF this]
    have step: "split_from (Suc n) r (c # bef) (c # cur) cs = split_from n r (c # bef) (c # cur) cs" .
    show ?thesis
    proof (cases "match_at r bef s")
      case None
      with Cons step show ?thesis unfolding unfold by (simp del: split_from.simps)
    next
      case (Some m)
      obtain len caps where m: "m = (len, caps)" by (cases m)
      show ?thesis
      proof (cases "len = 0 \<and> cur = []")
        case True
        with Some m Cons step show ?thesis unfolding unfold by (simp del: split_from.simps)
      next
        case False
        have "2 * length (drop len s) + (if ([]::string) = [] then 0 else 1) < n"
          using Suc.prems False Cons by (cases "len = 0") (auto split: if_splits)
        from Suc.IH[OF this]
        have "split_from (Suc n) r (rev (take len s) @ bef) [] (drop len s)
                = split_from n r (rev (take len s) @ bef) [] (drop len s)" .
        with Some m Cons False show ?thesis unfolding unfold by (auto simp del: split_from.simps)
      qed
    qed
  qed
qed

lemma split_bound:
  assumes "s \<noteq> []"
  shows "split_from (Suc (2 * length s) + k) r [] [] s = split r s"
proof (induction k)
  case 0
  with assms show ?case by (simp add: split_def)
next
  case (Suc k)
  have "2 * length s + (if ([]::string) = [] then 0 else 1) < Suc (2 * length s) + k"
    by simp
  from split_from_fuel[OF this, of r "[]"] Suc show ?case by (simp del: split_from.simps)
qed

lemma replace_from_fuel:
  assumes "length s < n"
  shows "replace_from (Suc n) r t bef s = replace_from n r t bef s"
  using assms
proof (induction n arbitrary: bef s)
  case 0
  then show ?case by simp
next
  case (Suc n)
  note unfold = replace_from.simps(2)[of "Suc n" r t bef s] replace_from.simps(2)[of n r t bef s]
  show ?case
  proof (cases s)
    case Nil
    then have "\<And>len caps. match_at r bef s = Some (len, caps) \<Longrightarrow> len = 0"
      using match_at_end by simp
    with Nil show ?thesis unfolding unfold
      by (auto simp del: replace_from.simps split: option.splits)
  next
    case (Cons c cs)
    have "length cs < n" using Suc.prems Cons by simp
    from Suc.IH[OF this]
    have tail: "replace_from (Suc n) r t (c # bef) cs = replace_from n r t (c # bef) cs" .
    show ?thesis
    proof (cases "match_at r bef s")
      case None
      with Cons tail show ?thesis unfolding unfold by (simp del: replace_from.simps)
    next
      case (Some m)
      obtain len caps where m: "m = (len, caps)" by (cases m)
      show ?thesis
      proof (cases "0 < len")
        case False
        with Some m Cons tail show ?thesis unfolding unfold by (simp del: replace_from.simps)
      next
        case True
        have "length (drop len s) < n" using Suc.prems True Cons by simp
        from Suc.IH[OF this]
        have "replace_from (Suc n) r t (rev (take len s) @ bef) (drop len s)
                = replace_from n r t (rev (take len s) @ bef) (drop len s)" .
        with Some m True show ?thesis unfolding unfold by (simp del: replace_from.simps)
      qed
    qed
  qed
qed

lemma replace_bound: "replace_from (Suc (length s) + k) r t [] s = replace_all r t s"
proof (induction k)
  case 0
  show ?case by (simp add: replace_all_def)
next
  case (Suc k)
  have "length s < Suc (length s) + k" by simp
  from replace_from_fuel[OF this, of r t "[]"] Suc show ?case by (simp del: replace_from.simps)
qed

section \<open>Properties of the turn splitter\<close>









lemma splitContentIntoTurns_blank:
  assumes "s \<noteq> []" and "paragraphs s = []"
  shows "splitContentIntoTurns (Some (JStr s))
           = [\<lparr>say = Some (take 200 s), question = None, meta_type = ''narration''\<rparr>]"
  using assms by (simp add: splitContentIntoTurns_def Let_def narration_turn_def)






section \<open>Properties of the session state machine\<close>

lemma nextTurn_found:
  assumes "ss (sessionKey u m) = Some st"
  shows "nextTurn parse env ss u m =
           (fst (nextTurn_body parse env st),
            ss(sessionKey u m \<mapsto> snd (nextTurn_body parse env st)))"
  using assms by (simp add: nextTurn_def requireSession_def split: prod.splits)


lemma store_unchanged: "ss k = Some st \<Longrightarrow> ss(k \<mapsto> st) = ss"
  by (rule fun_upd_idem) simp

lemma is_choice_not_null: "is_choice b = Inr True \<Longrightarrow> b \<noteq> JNull"
  by (auto simp: is_choice_def lower_text_def present_def field_def)

lemma currentTurnPayload_ok:
  assumes "nth_opt (blocks (lesson st)) (blockIndex st) = Some b"
    and "b \<noteq> JNull"
    and "is_choice b = Inr c"
  shows "\<exists>p. currentTurnPayload st = Inr p
             \<and> index_block p = blockIndex st \<and> index_turn p = turnIndex st
             \<and> blockId p = field b ''block_id'' \<and> blockType p = field b ''type'' \<and> \<not> p_done p
             \<and> p_choices p = (if c then Some (or_else (field b ''choices'') (JArr [])) else None)"
  using assms by (simp add: currentTurnPayload_def Let_def)


lemma finish_state: "snd (finish wrap st) = st"
  by (simp add: finish_def split: sum.splits)

lemma finish_ok:
  assumes "nth_opt (blocks (lesson st)) (blockIndex st) = Some b"
    and "b \<noteq> JNull"
    and "is_choice b = Inr c"
  shows "\<exists>p. finish wrap st = (Inr (wrap p), st)
             \<and> index_block p = blockIndex st \<and> index_turn p = turnIndex st
             \<and> blockId p = field b ''block_id'' \<and> blockType p = field b ''type'' \<and> \<not> p_done p
             \<and> p_choices p = (if c then Some (or_else (field b ''choices'') (JArr [])) else None)"
proof -
  from currentTurnPayload_ok[OF assms] obtain p where
    "currentTurnPayload st = Inr p" "index_block p = blockIndex st" "index_turn p = turnIndex st"
    "blockId p = field b ''block_id''" "blockType p = field b ''type''" "\<not> p_done p"
    "p_choices p = (if c then Some (or_else (field b ''choices'') (JArr [])) else None)"
    by blast
  then show ?thesis by (auto simp: finish_def)
qed













lemma nextTurn_body_turn_state:
  assumes "turnIndex st + 1 < length (turns_of st (blockIndex st))"
  shows "snd (nextTurn_body parse env st) = st\<lparr>turnIndex := turnIndex st + 1\<rparr>"
  using assms by (simp add: nextTurn_body_def Let_def finish_state)


lemma nextTurn_body_choice:
  assumes "nth_opt (blocks (lesson st)) (blockIndex st) = Some b"
    and "is_choice b = Inr True"
    and "\<not> turnIndex st + 1 < length (turns_of st (blockIndex st))"
  shows "\<exists>p. nextTurn_body parse env st = (Inr (AwaitingChoice p), st)
             \<and> p_choices p = Some (or_else (field b ''choices'') (JArr [])) \<and> \<not> p_done p
             \<and> index_block p = blockIndex st \<and> index_turn p = turnIndex st"
proof -
  let ?w = "\<lambda>p. AwaitingChoice (p\<lparr>p_choices := Some (or_else (field b ''choices'') (JArr []))\<rparr>)"
  have b: "blocks (lesson st) ! blockIndex st = b"
    using assms(1) by (simp add: nth_opt_def split: if_splits)
  from finish_ok[OF assms(1) is_choice_not_null[OF assms(2)] assms(2), of ?w]
  obtain p where p: "finish ?w st = (Inr (?w p), st)"
    "index_block p = blockIndex st" "index_turn p = turnIndex st" "\<not> p_done p"
    by blast
  have "nextTurn_body parse env st = (Inr (?w p), st)"
    using assms p(1) b by (simp add: nextTurn_body_def Let_def)
  with p show ?thesis by simp
qed

lemma nextTurn_body_choice_blockIndex:
  assumes "nth_opt (blocks (lesson st)) (blockIndex st) = Some b"
    and "is_choice b = Inr True"
  shows "blockIndex (snd (nextTurn_body parse env st)) = blockIndex st
       \<and> blocks (lesson (snd (nextTurn_body parse env st))) = blocks (lesson st)"
proof (cases "turnIndex st + 1 < length (turns_of st (blockIndex st))")
  case True
  from nextTurn_body_turn_state[OF True, of parse env] show ?thesis by simp
next
  case False
  from nextTurn_body_choice[OF assms False, of parse env] show ?thesis by auto
qed





text \<open>
  C2. When the current block of a session is a choice block and no turn of it is left,
  \<open>nextTurn\<close> returns the payload with \<open>awaitingChoice\<close> and the choices of the block, and the
  store is as before; whatever the turn index, \<open>nextTurn\<close> on a choice block leaves
  \<open>blockIndex\<close> and the blocks as they are.
\<close>

theorem nextTurn_awaits_choice:
  assumes "ss (sessionKey u m) = Some st"
    and "nth_opt (blocks (lesson st)) (blockIndex st) = Some b"
    and "is_choice b = Inr True"
  shows "(\<not> turnIndex st + 1 < length (turns_of st (blockIndex st)) \<longrightarrow>
            (\<exists>p. nextTurn parse env ss u m = (Inr (AwaitingChoice p), ss)
                 \<and> p_choices p = Some (or_else (field b ''choices'') (JArr [])) \<and> \<not> p_done p
                 \<and> index_block p = blockIndex st \<and> index_turn p = turnIndex st))
       \<and> (\<exists>st'. snd (nextTurn parse env ss u m) (sessionKey u m) = Some st'
                 \<and> blockIndex st' = blockIndex st
                 \<and> blocks (lesson st') = blocks (lesson st))"
proof
  show "\<not> turnIndex st + 1 < length (turns_of st (blockIndex st)) \<longrightarrow>
            (\<exists>p. nextTurn parse env ss u m = (Inr (AwaitingChoice p), ss)
                 \<and> p_choices p = Some (or_else (field b ''choices'') (JArr [])) \<and> \<not> p_done p
                 \<and> index_block p = blockIndex st \<and> index_turn p = turnIndex st)"
  proof
    assume ex: "\<not> turnIndex st + 1 < length (turns_of st (blockIndex st))"
    from nextTurn_body_choice[OF assms(2,3) ex, of parse env]
    obtain p where "nextTurn_body parse env st = (Inr (AwaitingChoice p), st)"
      "p_choices p = Some (or_else (field b ''choices'') (JArr []))" "\<not> p_done p"
      "index_block p = blockIndex st" "index_turn p = turnIndex st"
      by blast
    then show "\<exists>p. nextTurn parse env ss u m = (Inr (AwaitingChoice p), ss)
                 \<and> p_choices p = Some (or_else (field b ''choices'') (JArr [])) \<and> \<not> p_done p
                 \<and> index_block p = blockIndex st \<and> index_turn p = turnIndex st"
      using nextTurn_found[where ss=ss and u=u and m=m and st=st and env=env and parse=parse]
        assms(1) store_unchanged[where ss=ss and k="sessionKey u m" and st=st]
      by simp
  qed
next
  show "\<exists>st'. snd (nextTurn parse env ss u m) (sessionKey u m) = Some st'
                 \<and> blockIndex st' = blockIndex st
                 \<and> blocks (lesson st') = blocks (lesson st)"
    using nextTurn_found[where ss=ss and u=u and m=m and st=st and env=env and parse=parse]
      assms(1) nextTurn_body_choice_blockIndex[OF assms(2,3), of parse env]
    by simp
qed


theorem nextTurn_awaits_choice_witness:
  "store_of branching_session (sessionKey ''u1'' ''m1'') = Some branching_session
   \<and> is_choice path_choice_block = Inr True
   \<and> blockIndex branching_session = 0 \<and> turnIndex branching_session = 0
   \<and> length (turns_of branching_session 0) = 1
   \<and> (\<exists>p. nextTurn JSON_parse quiet (store_of branching_session) ''u1'' ''m1''
              = (Inr (AwaitingChoice p), store_of branching_session)
          \<and> p_choices p
              = Some (JArr [JObj [(''text'', JStr ''A''), (''next_block'', JStr ''s3''),
                                  (''consequence'', JNull), (''learning_value'', JNull),
                                  (''difficulty_level'', JStr ''adaptive'')],
                            JObj [(''text'', JStr ''B''), (''next_block'', JStr ''s2''),
                                  (''consequence'', JNull), (''learning_value'', JNull),
                                  (''difficulty_level'', JStr ''adaptive'')]])
          \<and> \<not> p_done p \<and> index_block p = 0 \<and> index_turn p = 0)"
proof -
  let ?S = "branching_session"
  have f1: "store_of ?S (sessionKey ''u1'' ''m1'') = Some ?S"
    by (simp add: store_of_def sessionKey_def)
  have f2: "nth_opt (blocks (lesson ?S)) (blockIndex ?S) = Some path_choice_block"
    by (simp add: branching_session_def session_on_def nth_opt_def)
  have f3: "is_choice path_choice_block = Inr True"
    by code_simp
  have f4: "blockIndex ?S = 0" "turnIndex ?S = 0"
    by (simp_all add: branching_session_def session_on_def)
  have f5: "length (turns_of ?S 0) = 1"
    by code_simp
  have f6: "\<not> turnIndex ?S + 1 < length (turns_of ?S (blockIndex ?S))"
    using f4 f5 by simp
  have f7: "or_else (field path_choice_block ''choices'') (JArr [])
              = JArr [JObj [(''text'', JStr ''A''), (''next_block'', JStr ''s3''),
                            (''consequence'', JNull), (''learning_value'', JNull),
                            (''difficulty_level'', JStr ''adaptive'')],
                      JObj [(''text'', JStr ''B''), (''next_block'', JStr ''s2''),
                            (''consequence'', JNull), (''learning_value'', JNull),
                            (''difficulty_level'', JStr ''adaptive'')]]"
    by code_simp
  note r = nextTurn_awaits_choice[where ss="store_of ?S" and u="''u1''" and m="''m1''"
      and st="?S" and b=path_choice_block and parse=JSON_parse and env=quiet,
      OF f1 f2 f3, THEN conjunct1, THEN mp, OF f6]
  have "\<exists>p. nextTurn JSON_parse quiet (store_of ?S) ''u1'' ''m1''
              = (Inr (AwaitingChoice p), store_of ?S)
          \<and> p_choices p = Some (or_else (field path_choice_block ''choices'') (JArr []))
          \<and> \<not> p_done p \<and> index_block p = blockIndex ?S \<and> index_turn p = turnIndex ?S"
    by (rule r)
  then have "\<exists>p. nextTurn JSON_parse quiet (store_of ?S) ''u1'' ''m1''
              = (Inr (AwaitingChoice p), store_of ?S)
          \<and> p_choices p
              = Some (JArr [JObj [(''text'', JStr ''A''), (''next_block'', JStr ''s3''),
                                  (''consequence'', JNull), (''learning_value'', JNull),
                                  (''difficulty_level'', JStr ''adaptive'')],
                            JObj [(''text'', JStr ''B''), (''next_block'', JStr ''s2''),
                                  (''consequence'', JNull), (''learning_value'', JNull),
                                  (''difficulty_level'', JStr ''adaptive'')]])
          \<and> \<not> p_done p \<and> index_block p = 0 \<and> index_turn p = 0"
    unfolding f7 f4 .
  with f1 f3 f4 f5 show ?thesis by simp
qed



subsection \<open>Responses\<close>













lemma submitResponse_body_feedback:
  assumes "nth_opt (blocks (lesson st)) (blockIndex st) = Some b"
    and "b \<noteq> JNull"
    and "is_choice b = Inr False"
    and "printable (field b ''title'')"
    and "printable (field b ''learning_goal'')"
  shows "submitResponse_body parse env st r
           = (Inr (Feedback (assess env) (compose_feedback parse (feedback_service env))
                            (maybeRecommendNext env)),
              st\<lparr>lastAssessment := assess env\<rparr>)"
  using assms by (simp add: submitResponse_body_def Let_def)














section \<open>Properties of the step content generator\<close>

lemma string_of_printable:
  assumes "printable (field step k)"
  shows "string_of (or_else (field step k) (JStr d)) = Inr (to_String (or_else (field step k) (JStr d)))"
  using assms
  by (auto simp: printable_def string_of_def or_else_def split: option.splits)

lemma text_of_printable:
  assumes "printable v"
  shows "text_of v = Inr (case v of Some x \<Rightarrow> to_String x | None \<Rightarrow> ''undefined'')"
  using assms by (auto simp: printable_def text_of_def string_of_def split: option.splits)

lemma fallback_block_fields:
  assumes "fallback_block t step = Inr b"
  shows "field b ''error'' = Some (JStr ''Fallback content due to AI error'')
       \<and> field b ''content''
           = Some (JStr (''This slide covers: ''
                         @ (case field step ''objective'' of
                              Some v \<Rightarrow> to_String v
                            | None \<Rightarrow> ''undefined'')))
       \<and> field b ''type'' = Some (JStr t)
       \<and> field b ''block_id'' = field step ''id''
       \<and> field b ''title'' = field step ''title''
       \<and> field b ''learning_goal'' = field step ''objective''
       \<and> field b ''media'' = Some (JObj [(''image'', JStr ''/images/mars_base_dark.png'')])"
  using assms
  by (auto simp: fallback_block_def text_of_def string_of_def field_def entry_def
           split: sum.splits option.splits if_splits)

lemma generateContentForStep_unfold:
  assumes "step \<noteq> JNull" and "printable (field step ''type'')"
  shows "generateContentForStep parse service (Some step) ctx
           = (let t = toLowerCase (to_String (or_else (field step ''type'') (JStr ''narration'')))
              in case generate_attempt parse service t step ctx of
                   Inr r \<Rightarrow> Inr r
                 | Inl e \<Rightarrow> fallback_block t step)"
  using assms by (simp add: generateContentForStep_def string_of_printable Let_def)

lemma generateContentForStep_returns:
  assumes "step \<noteq> JNull" and "printable (field step ''type'')"
    and "printable (field step ''objective'')"
  shows "\<exists>block. generateContentForStep parse service (Some step) ctx = Inr block"
  using assms
  by (auto simp: generateContentForStep_unfold Let_def fallback_block_def text_of_printable
           split: sum.splits)

text \<open>
  C5 (amended). \<open>generateContentForStep\<close> throws a TypeError for a step that is \<open>undefined\<close>
  or \<open>null\<close>. For every other step whose type and objective can be converted to strings, and
  every behaviour of the generation service, it returns a value. Let the type of the step be
  neither \<open>choice\<close> nor \<open>image\<close>. When the prompt cannot be built or the call of the service
  fails, the value is the fallback block of the step: its \<open>error\<close> is set, its content is
  \<open>This slide covers:\<close> and the objective, and its id, type, title and learning goal are
  those of the step. When the service answers a text, the value is what
  \<open>parseAIJSONResponse\<close> makes of it; when that throws, it is what \<open>JSON.parse\<close> makes of
  the repaired text, with no \<open>error\<close> marker of the generator; and only when that throws too the value
  is the fallback block.
\<close>

theorem generateContentForStep_fallback:
  "generateContentForStep parse service None ctx = Inl TypeError
   \<and> generateContentForStep parse service (Some JNull) ctx = Inl TypeError
   \<and> (step \<noteq> JNull \<and> printable (field step ''type'') \<and> printable (field step ''objective'') \<longrightarrow>
        (\<exists>block. generateContentForStep parse service (Some step) ctx = Inr block)
      \<and> (\<forall>t. t = toLowerCase (to_String (or_else (field step ''type'') (JStr ''narration'')))
               \<and> t \<noteq> ''choice'' \<and> t \<noteq> ''image'' \<longrightarrow>
            ((\<exists>msg. service = Throws msg) \<or> prompt_throws t step (ctx_userProfile ctx)
               \<or> (\<exists>response e. service = Returns response
                     \<and> parseAIJSONResponse parse response = Inl e
                     \<and> parse (fixCommonJSONIssues response) = None) \<longrightarrow>
               (\<exists>b. generateContentForStep parse service (Some step) ctx = Inr b
                  \<and> field b ''error'' = Some (JStr ''Fallback content due to AI error'')
                  \<and> field b ''content''
                      = Some (JStr (''This slide covers: ''
                                    @ (case field step ''objective'' of
                                         Some v \<Rightarrow> to_String v
                                       | None \<Rightarrow> ''undefined'')))
                  \<and> field b ''type'' = Some (JStr t)
                  \<and> field b ''block_id'' = field step ''id''
                  \<and> field b ''title'' = field step ''title''
                  \<and> field b ''learning_goal'' = field step ''objective''
                  \<and> field b ''media''
                      = Some (JObj [(''image'', JStr ''/images/mars_base_dark.png'')])))
          \<and> (\<forall>response v. service = Returns response \<and> \<not> prompt_throws t step (ctx_userProfile ctx)
                 \<and> parseAIJSONResponse parse response = Inr v \<longrightarrow>
                 generateContentForStep parse service (Some step) ctx = Inr v)
          \<and> (\<forall>response e v. service = Returns response
                 \<and> \<not> prompt_throws t step (ctx_userProfile ctx)
                 \<and> parseAIJSONResponse parse response = Inl e
                 \<and> parse (fixCommonJSONIssues response) = Some v \<longrightarrow>
                 generateContentForStep parse service (Some step) ctx = Inr v)))"
proof (intro conjI impI)
  show "generateContentForStep parse service None ctx = Inl TypeError"
    by (simp add: generateContentForStep_def)
next
  show "generateContentForStep parse service (Some JNull) ctx = Inl TypeError"
    by (simp add: generateContentForStep_def)
next
  assume a: "step \<noteq> JNull \<and> printable (field step ''type'') \<and> printable (field step ''objective'')"
  then show "\<exists>block. generateContentForStep parse service (Some step) ctx = Inr block"
    using generateContentForStep_returns by blast
next
  assume a: "step \<noteq> JNull \<and> printable (field step ''type'') \<and> printable (field step ''objective'')"
  define T where "T = toLowerCase (to_String (or_else (field step ''type'') (JStr ''narration'')))"
  let ?G = "generateContentForStep parse service (Some step) ctx"
  have unfold: "?G = (case generate_attempt parse service T step ctx of
                        Inr r \<Rightarrow> Inr r
                      | Inl e \<Rightarrow> fallback_block T step)"
    unfolding T_def using a by (simp add: generateContentForStep_unfold Let_def)
  have fb: "\<exists>b. fallback_block T step = Inr b"
    using a by (simp add: fallback_block_def text_of_printable)
  have failing: "T \<noteq> ''choice'' \<Longrightarrow> T \<noteq> ''image'' \<Longrightarrow>
      (\<exists>msg. service = Throws msg) \<or> prompt_throws T step (ctx_userProfile ctx)
        \<or> (\<exists>response e. service = Returns response
              \<and> parseAIJSONResponse parse response = Inl e
              \<and> parse (fixCommonJSONIssues response) = None) \<Longrightarrow>
      ?G = fallback_block T step"
    unfolding unfold by (auto simp: generate_attempt_def split: svc_result.splits sum.splits)
  have parsed: "\<And>response v. T \<noteq> ''choice'' \<Longrightarrow> T \<noteq> ''image'' \<Longrightarrow>
      service = Returns response \<Longrightarrow> \<not> prompt_throws T step (ctx_userProfile ctx) \<Longrightarrow>
      parseAIJSONResponse parse response = Inr v \<Longrightarrow> ?G = Inr v"
    unfolding unfold by (simp add: generate_attempt_def)
  have repaired: "\<And>response e v. T \<noteq> ''choice'' \<Longrightarrow> T \<noteq> ''image'' \<Longrightarrow>
      service = Returns response \<Longrightarrow> \<not> prompt_throws T step (ctx_userProfile ctx) \<Longrightarrow>
      parseAIJSONResponse parse response = Inl e \<Longrightarrow>
      parse (fixCommonJSONIssues response) = Some v \<Longrightarrow> ?G = Inr v"
    unfolding unfold by (simp add: generate_attempt_def)
  show "\<forall>t. t = toLowerCase (to_String (or_else (field step ''type'') (JStr ''narration'')))
               \<and> t \<noteq> ''choice'' \<and> t \<noteq> ''image'' \<longrightarrow>
            ((\<exists>msg. service = Throws msg) \<or> prompt_throws t step (ctx_userProfile ctx)
               \<or> (\<exists>response e. service = Returns response
                     \<and> parseAIJSONResponse parse response = Inl e
                     \<and> parse (fixCommonJSONIssues response) = None) \<longrightarrow>
               (\<exists>b. ?G = Inr b
                  \<and> field b ''error'' = Some (JStr ''Fallback content due to AI error'')
                  \<and> field b ''content''
                      = Some (JStr (''This slide covers: ''
                                    @ (case field step ''objective'' of
                                         Some v \<Rightarrow> to_String v
                                       | None \<Rightarrow> ''undefined'')))
                  \<and> field b ''type'' = Some (JStr t)
                  \<and> field b ''block_id'' = field step ''id''
                  \<and> field b ''title'' = field step ''title''
                  \<and> field b ''learning_goal'' = field step ''objective''
                  \<and> field b ''media''
                      = Some (JObj [(''image'', JStr ''/images/mars_base_dark.png'')])))
          \<and> (\<forall>response v. service = Returns response \<and> \<not> prompt_throws t step (ctx_userProfile ctx)
                 \<and> parseAIJSONResponse parse response = Inr v \<longrightarrow> ?G = Inr v)
          \<and> (\<forall>response e v. service = Returns response
                 \<and> \<not> prompt_throws t step (ctx_userProfile ctx)
                 \<and> parseAIJSONResponse parse response = Inl e
                 \<and> parse (fixCommonJSONIssues response) = Some v \<longrightarrow> ?G = Inr v)"
    unfolding T_def[symmetric]
  proof (intro allI impI conjI)
    fix t
    assume t: "t = T \<and> t \<noteq> ''choice'' \<and> t \<noteq> ''image''"
    then have teq: "t = T" by (rule conjunct1)
    from t have tc: "T \<noteq> ''choice''" and ti: "T \<noteq> ''image''" unfolding teq by blast+
    assume h: "(\<exists>msg. service = Throws msg) \<or> prompt_throws t step (ctx_userProfile ctx)
               \<or> (\<exists>response e. service = Returns response
                     \<and> parseAIJSONResponse parse response = Inl e
                     \<and> parse (fixCommonJSONIssues response) = None)"
    have g: "?G = fallback_block T step"
      by (rule failing[OF tc ti]) (rule h[unfolded teq])
    from fb obtain b where b: "fallback_block T step = Inr b" by blast
    from fallback_block_fields[OF b] g b
    show "\<exists>b. ?G = Inr b
                  \<and> field b ''error'' = Some (JStr ''Fallback content due to AI error'')
                  \<and> field b ''content''
                      = Some (JStr (''This slide covers: ''
                                    @ (case field step ''objective'' of
                                         Some v \<Rightarrow> to_String v
                                       | None \<Rightarrow> ''undefined'')))
                  \<and> field b ''type'' = Some (JStr t)
                  \<and> field b ''block_id'' = field step ''id''
                  \<and> field b ''title'' = field step ''title''
                  \<and> field b ''learning_goal'' = field step ''objective''
                  \<and> field b ''media''
                      = Some (JObj [(''image'', JStr ''/images/mars_base_dark.png'')])"
      unfolding teq by simp
  next
    fix t response v
    assume t: "t = T \<and> t \<noteq> ''choice'' \<and> t \<noteq> ''image''"
    then have teq: "t = T" by (rule conjunct1)
    from t have tc: "T \<noteq> ''choice''" and ti: "T \<noteq> ''image''" unfolding teq by blast+
    assume "service = Returns response \<and> \<not> prompt_throws t step (ctx_userProfile ctx)
                 \<and> parseAIJSONResponse parse response = Inr v"
    then show "?G = Inr v" unfolding teq using parsed[OF tc ti] by blast
  next
    fix t response e v
    assume t: "t = T \<and> t \<noteq> ''choice'' \<and> t \<noteq> ''image''"
    then have teq: "t = T" by (rule conjunct1)
    from t have tc: "T \<noteq> ''choice''" and ti: "T \<noteq> ''image''" unfolding teq by blast+
    assume "service = Returns response
                 \<and> \<not> prompt_throws t step (ctx_userProfile ctx)
                 \<and> parseAIJSONResponse parse response = Inl e
                 \<and> parse (fixCommonJSONIssues response) = Some v"
    then show "?G = Inr v" unfolding teq using repaired[OF tc ti] by blast
  qed
qed

theorem generateContentForStep_fallback_witness:
  "step_s4 \<noteq> JNull \<and> printable (field step_s4 ''type'') \<and> printable (field step_s4 ''objective'')
   \<and> toLowerCase (to_String (or_else (field step_s4 ''type'') (JStr ''narration''))) = ''narration''
   \<and> (\<exists>b. generateContentForStep JSON_parse (Throws ''service down'') (Some step_s4) plain_context = Inr b
         \<and> field b ''error'' = Some (JStr ''Fallback content due to AI error'')
         \<and> field b ''content'' = Some (JStr ''This slide covers: Explain gravity'')
         \<and> field b ''type'' = Some (JStr ''narration'')
         \<and> field b ''block_id'' = Some (JStr ''s4''))"
proof -
  have f1: "step_s4 \<noteq> JNull \<and> printable (field step_s4 ''type'')
            \<and> printable (field step_s4 ''objective'')"
    by code_simp
  have f2: "toLowerCase (to_String (or_else (field step_s4 ''type'') (JStr ''narration''))) = ''narration''"
    by code_simp
  have f3: "field step_s4 ''objective'' = Some (JStr ''Explain gravity'')"
    "field step_s4 ''id'' = Some (JStr ''s4'')"
    by code_simp+
  note r = generateContentForStep_fallback[of JSON_parse "Throws ''service down''" plain_context step_s4,
      THEN conjunct2, THEN conjunct2, THEN mp, OF f1, THEN conjunct2, THEN spec, of "''narration''",
      THEN mp, THEN conjunct1, THEN mp]
  have "\<exists>b. generateContentForStep JSON_parse (Throws ''service down'') (Some step_s4) plain_context = Inr b
         \<and> field b ''error'' = Some (JStr ''Fallback content due to AI error'')
         \<and> field b ''content''
             = Some (JStr (''This slide covers: ''
                           @ (case field step_s4 ''objective'' of
                                Some v \<Rightarrow> to_String v
                              | None \<Rightarrow> ''undefined'')))
         \<and> field b ''type'' = Some (JStr ''narration'')
         \<and> field b ''block_id'' = field step_s4 ''id''
         \<and> field b ''title'' = field step_s4 ''title''
         \<and> field b ''learning_goal'' = field step_s4 ''objective''
         \<and> field b ''media'' = Some (JObj [(''image'', JStr ''/images/mars_base_dark.png'')])"
    by (rule r) (simp_all add: f2)
  then obtain b where
    "generateContentForStep JSON_parse (Throws ''service down'') (Some step_s4) plain_context = Inr b"
    "field b ''error'' = Some (JStr ''Fallback content due to AI error'')"
    "field b ''content''
       = Some (JStr (''This slide covers: ''
                     @ (case field step_s4 ''objective'' of
                          Some v \<Rightarrow> to_String v
                        | None \<Rightarrow> ''undefined'')))"
    "field b ''type'' = Some (JStr ''narration'')"
    "field b ''block_id'' = field step_s4 ''id''"
    by (elim exE conjE) (rule that, assumption+)
  then have "\<exists>b. generateContentForStep JSON_parse (Throws ''service down'') (Some step_s4) plain_context = Inr b
         \<and> field b ''error'' = Some (JStr ''Fallback content due to AI error'')
         \<and> field b ''content'' = Some (JStr ''This slide covers: Explain gravity'')
         \<and> field b ''type'' = Some (JStr ''narration'')
         \<and> field b ''block_id'' = Some (JStr ''s4'')"
    by (simp add: f3)
  with f1 f2 show ?thesis by simp
qed

theorem generateContentForStep_fallback_counterexample:
  "parseAIJSONResponse JSON_parse commented_text = Inl (Error ''No valid JSON found in AI response'')
   \<and> generateContentForStep JSON_parse (Returns commented_text) (Some step_s4) plain_context
       = Inr (JNum 5)
   \<and> field (JNum 5) ''error'' = None
   \<and> generateContentForStep JSON_parse (Throws ''service down'') None plain_context = Inl TypeError
   \<and> generateContentForStep JSON_parse (Throws ''service down'') (Some JNull) plain_context
       = Inl TypeError"
proof -
  have a: "parseAIJSONResponse JSON_parse commented_text
             = Inl (Error ''No valid JSON found in AI response'')"
    by code_simp
  have b: "generateContentForStep JSON_parse (Returns commented_text) (Some step_s4) plain_context
             = Inr (JNum 5)"
    by code_simp
  have c: "field (JNum 5) ''error'' = None"
    by (simp add: field_def)
  have d: "generateContentForStep JSON_parse (Throws ''service down'') None plain_context
             = Inl TypeError"
    by (simp add: generateContentForStep_def)
  have e: "generateContentForStep JSON_parse (Throws ''service down'') (Some JNull) plain_context
             = Inl TypeError"
    by (simp add: generateContentForStep_def)
  show ?thesis by (intro conjI a b c d e)
qed

section \<open>Properties of the response normalizer\<close>

text \<open>
  C8 (amended). On every text that \<open>JSON.parse\<close> accepts, so on the serialization of every
  JSON value, \<open>parseAIJSONResponse\<close> returns the value that \<open>JSON.parse\<close> gives. The repairs
  of other texts rewrite the text without regard to string literals. They recover the
  well-formed equivalent of \<open>{a:1, b:2,}\<close>, which normalizes to \<open>{"a":1,"b":2}\<close>, of the
  fenced object with a trailing comma and of the object with a single-quoted value.
\<close>

theorem parseAIJSONResponse_direct:
  "(\<forall>parse s v. parse s = Some v \<longrightarrow> parseAIJSONResponse parse s = Inr v)
   \<and> parseAIJSONResponse JSON_parse scenario_c_text = Inr (JObj [(''a'', JNum 1), (''b'', JNum 2)])
   \<and> parseAIJSONResponse JSON_parse fenced_sample = Inr (JObj [(''a'', JNum 1), (''b'', JNum 2)])
   \<and> parseAIJSONResponse JSON_parse single_quoted_sample
       = Inr (JObj [(''a'', JStr ''x''), (''b'', JNum 2)])"
proof -
  have direct: "\<forall>parse s v. parse s = Some v \<longrightarrow> parseAIJSONResponse parse s = Inr v"
    by (simp add: parseAIJSONResponse_def)
  have c: "parseAIJSONResponse JSON_parse scenario_c_text = Inr (JObj [(''a'', JNum 1), (''b'', JNum 2)])"
    by code_simp
  have f1: "JSON_parse fenced_sample = None"
    by code_simp
  have f2: "search re_fence_block fenced_sample = Some (fenced_sample, [(1, fenced_inner)])"
    by code_simp
  have f3: "fixCommonJSONIssues (trim (captured 1 [(1, fenced_inner)])) = fenced_repaired"
    by code_simp
  have f4: "JSON_parse fenced_repaired = Some (JObj [(''a'', JNum 1), (''b'', JNum 2)])"
    by code_simp
  have f: "parseAIJSONResponse JSON_parse fenced_sample = Inr (JObj [(''a'', JNum 1), (''b'', JNum 2)])"
    by (simp only: parseAIJSONResponse_def f1 f2 f3 f4 option.case prod.case)
  have q: "parseAIJSONResponse JSON_parse single_quoted_sample
       = Inr (JObj [(''a'', JStr ''x''), (''b'', JNum 2)])"
    by code_simp
  show ?thesis by (intro conjI direct c f q)
qed

theorem parseAIJSONResponse_direct_witness:
  "JSON_parse well_formed_text = Some (JObj [(''a'', JStr ''1,]2'')])
   \<and> parseAIJSONResponse JSON_parse well_formed_text = Inr (JObj [(''a'', JStr ''1,]2'')])"
proof -
  have p: "JSON_parse well_formed_text = Some (JObj [(''a'', JStr ''1,]2'')])"
    by code_simp
  note direct = parseAIJSONResponse_direct[THEN conjunct1, THEN spec, THEN spec, THEN spec,
      of JSON_parse well_formed_text "JObj [(''a'', JStr ''1,]2'')]"]
  from direct p have "parseAIJSONResponse JSON_parse well_formed_text = Inr (JObj [(''a'', JStr ''1,]2'')])"
    by (rule mp)
  with p show ?thesis by (intro conjI)
qed

theorem parseAIJSONResponse_repair_counterexample:
  "JSON_parse well_formed_text = Some (JObj [(''a'', JStr ''1,]2'')])
   \<and> parseAIJSONResponse JSON_parse trailing_comma_text = Inr (JObj [(''a'', JStr ''1]2'')])
   \<and> parseAIJSONResponse JSON_parse single_quoted_array
       = Inl (Error ''No valid JSON found in AI response'')"
proof -
  have a: "JSON_parse well_formed_text = Some (JObj [(''a'', JStr ''1,]2'')])"
    by code_simp
  have b: "parseAIJSONResponse JSON_parse trailing_comma_text = Inr (JObj [(''a'', JStr ''1]2'')])"
    by code_simp
  have c: "parseAIJSONResponse JSON_parse single_quoted_array
       = Inl (Error ''No valid JSON found in AI response'')"
    by code_simp
  show ?thesis by (intro conjI a b c)
qed

section \<open>Properties of the plan generator\<close>







lemma createPlan_fallback:
  assumes "(\<exists>msg. service = Throws msg)
         \<or> (\<exists>raw. service = Returns raw
               \<and> (\<forall>arr. parseAIJSONResponse parse raw \<noteq> Inr (JArr arr))
               \<and> (\<forall>arr. parse (fixCommonJSONIssues raw) \<noteq> Some (JArr arr)))"
  shows "createPlan parse service = Inr fallback_plan"
  using assms
  by (auto simp: createPlan_def plan_attempt_def
           split: svc_result.splits sum.splits json.splits option.splits)




text \<open>
  C7 (amended). When the call of the generation service fails, or neither
  \<open>parseAIJSONResponse\<close> nor the repair retry yields an array, \<open>createPlan\<close> returns the
  synthetic plan. It has eight steps; the steps at the positions 4 and 8 are choice steps,
  every other step at a multiple of 3 is a quiz and the rest are narrations: narration,
  narration, quiz, choice, narration, quiz, narration, choice. A choice step has two
  options, \<open>Path A\<close> and \<open>Path B\<close>, and no other step has options; the options of step 4 name
  \<open>step_5\<close>, the id of the next step of the plan.
\<close>

theorem createPlan_synthetic:
  "((\<exists>msg. service = Throws msg)
      \<or> (\<exists>raw. service = Returns raw
            \<and> (\<forall>arr. parseAIJSONResponse parse raw \<noteq> Inr (JArr arr))
            \<and> (\<forall>arr. parse (fixCommonJSONIssues raw) \<noteq> Some (JArr arr)))
     \<longrightarrow> createPlan parse service = Inr fallback_plan)
   \<and> length fallback_plan = 8
   \<and> map type_of fallback_plan
       = [''narration'', ''narration'', ''quiz'', ''choice'', ''narration'', ''quiz'', ''narration'', ''choice'']
   \<and> step_ids fallback_plan
       = [Some (JStr ''step_1''), Some (JStr ''step_2''), Some (JStr ''step_3''), Some (JStr ''choice_4''),
          Some (JStr ''step_5''), Some (JStr ''step_6''), Some (JStr ''step_7''), Some (JStr ''choice_8'')]
   \<and> map (length \<circ> option_targets) fallback_plan = [0, 0, 0, 2, 0, 0, 0, 2]
   \<and> field (fallback_plan ! 3) ''options''
       = Some (JArr [JObj [(''text'', JStr ''Path A''), (''next'', JStr ''step_5'')],
                     JObj [(''text'', JStr ''Path B''), (''next'', JStr ''step_5'')]])
   \<and> field (fallback_plan ! 4) ''id'' = Some (JStr ''step_5'')"
proof -
  have a: "(\<exists>msg. service = Throws msg)
      \<or> (\<exists>raw. service = Returns raw
            \<and> (\<forall>arr. parseAIJSONResponse parse raw \<noteq> Inr (JArr arr))
            \<and> (\<forall>arr. parse (fixCommonJSONIssues raw) \<noteq> Some (JArr arr)))
     \<longrightarrow> createPlan parse service = Inr fallback_plan"
    using createPlan_fallback by blast
  have b: "length fallback_plan = 8"
    by code_simp
  have c: "map type_of fallback_plan
       = [''narration'', ''narration'', ''quiz'', ''choice'', ''narration'', ''quiz'', ''narration'', ''choice'']"
    by code_simp
  have d: "step_ids fallback_plan
       = [Some (JStr ''step_1''), Some (JStr ''step_2''), Some (JStr ''step_3''), Some (JStr ''choice_4''),
          Some (JStr ''step_5''), Some (JStr ''step_6''), Some (JStr ''step_7''), Some (JStr ''choice_8'')]"
    by code_simp
  have e: "map (length \<circ> option_targets) fallback_plan = [0, 0, 0, 2, 0, 0, 0, 2]"
    by code_simp
  have f: "field (fallback_plan ! 3) ''options''
       = Some (JArr [JObj [(''text'', JStr ''Path A''), (''next'', JStr ''step_5'')],
                     JObj [(''text'', JStr ''Path B''), (''next'', JStr ''step_5'')]])"
    by code_simp
  have g: "field (fallback_plan ! 4) ''id'' = Some (JStr ''step_5'')"
    by code_simp
  show ?thesis by (intro conjI a b c d e f g)
qed

theorem createPlan_synthetic_witness:
  "createPlan JSON_parse (Throws ''AI generation failed'') = Inr fallback_plan
   \<and> parseAIJSONResponse JSON_parse ''no plan'' = Inl (Error ''No valid JSON found in AI response'')
   \<and> JSON_parse (fixCommonJSONIssues ''no plan'') = None
   \<and> createPlan JSON_parse (Returns ''no plan'') = Inr fallback_plan"
proof -
  note thrown = createPlan_synthetic[of "Throws ''AI generation failed''" JSON_parse, THEN conjunct1]
  have a: "createPlan JSON_parse (Throws ''AI generation failed'') = Inr fallback_plan"
    using thrown by simp
  have p1: "parseAIJSONResponse JSON_parse ''no plan'' = Inl (Error ''No valid JSON found in AI response'')"
    by code_simp
  have p2: "JSON_parse (fixCommonJSONIssues ''no plan'') = None"
    by code_simp
  note unparsed = createPlan_synthetic[of "Returns ''no plan''" JSON_parse, THEN conjunct1]
  have b: "createPlan JSON_parse (Returns ''no plan'') = Inr fallback_plan"
    using unparsed p1 p2 by simp
  show ?thesis by (intro conjI a p1 p2 b)
qed

theorem createPlan_synthetic_counterexample:
  "createPlan JSON_parse (Throws ''AI generation failed'') = Inr fallback_plan
   \<and> other_types fallback_plan
       = [''narration'', ''narration'', ''quiz'', ''narration'', ''quiz'', ''narration'']
   \<and> \<not> alternates (other_types fallback_plan)"
proof -
  have a: "createPlan JSON_parse (Throws ''AI generation failed'') = Inr fallback_plan"
    by (simp add: createPlan_def)
  have b: "other_types fallback_plan
       = [''narration'', ''narration'', ''quiz'', ''narration'', ''quiz'', ''narration'']"
    by code_simp
  have c: "\<not> alternates (other_types fallback_plan)"
    unfolding b by simp
  show ?thesis by (intro conjI a b c)
qed

end
